theory Spec2Isabelle
  imports Complex_Main
begin

section \<open>Python values shared by the modules\<close>

text \<open>
  Exceptions are values. Every handler of the repository catches \<open>Exception\<close> and reads
  only \<open>str(e)\<close>, so an exception is its class together with its message.
\<close>

datatype exn =
    OrchestrationError string
  | ValueError string
  | FileNotFoundError string
  | XmlsecError string
  | Fault string
  | TransportError string
  | OtherException string

fun str_exn :: "exn \<Rightarrow> string" where
  "str_exn (OrchestrationError m) = m"
| "str_exn (ValueError m) = m"
| "str_exn (FileNotFoundError m) = m"
| "str_exn (XmlsecError m) = m"
| "str_exn (Fault m) = m"
| "str_exn (TransportError m) = m"
| "str_exn (OtherException m) = m"

text \<open>
  Python strings hold code points, HOL strings hold bytes: the accented letters of the
  Portuguese messages are written as their UTF-8 bytes.
\<close>

definition a_til :: string where "a_til = [CHR 0xC3, CHR 0xA3]"
definition c_ced :: string where "c_ced = [CHR 0xC3, CHR 0xA7]"
definition o_acute :: string where "o_acute = [CHR 0xC3, CHR 0xB3]"
definition o_til :: string where "o_til = [CHR 0xC3, CHR 0xB5]"

text \<open>\<open>str(n)\<close> for Python's unbounded integers.\<close>

definition digit_char :: "nat \<Rightarrow> char" where
  "digit_char d =
     (if d = 0 then CHR ''0'' else if d = 1 then CHR ''1'' else if d = 2 then CHR ''2''
      else if d = 3 then CHR ''3'' else if d = 4 then CHR ''4'' else if d = 5 then CHR ''5''
      else if d = 6 then CHR ''6'' else if d = 7 then CHR ''7'' else if d = 8 then CHR ''8''
      else CHR ''9'')"

function str_nat :: "nat \<Rightarrow> string" where
  "str_nat n = (if n < 10 then [digit_char n] else str_nat (n div 10) @ [digit_char (n mod 10)])"
  by pat_completeness auto
termination
  by (relation "measure id") auto

declare str_nat.simps [simp del]

definition str_int :: "int \<Rightarrow> string" where
  "str_int i = (if i < 0 then ''-'' @ str_nat (nat (- i)) else str_nat (nat i))"

text \<open>What an f-string prints for a value that may be \<open>None\<close>.\<close>

definition str_opt :: "string option \<Rightarrow> string" where
  "str_opt v = (case v of None \<Rightarrow> ''None'' | Some s \<Rightarrow> s)"

text \<open>\<open>d.get(key, default)\<close> on a key that may be absent.\<close>

definition get_or :: "'a option \<Rightarrow> 'a \<Rightarrow> 'a" where
  "get_or v d = (case v of None \<Rightarrow> d | Some x \<Rightarrow> x)"

section \<open>What the workflow does to the outside world\<close>

text \<open>
  The collaborators are called for their effects (the data source, the remote service,
  the clock), so a run carries the trace of what it did, oldest event first.
\<close>

datatype event =
    GetInvoices
  | GerarNumeroLote
  | CreateLoteXml
  | SignLoteRps
  | SendLoteRps
  | CheckLoteStatus string
  | Sleep nat
  | GetLoteResults string

fun is_check :: "event \<Rightarrow> bool" where
  "is_check (CheckLoteStatus p) = True"
| "is_check e = False"

fun is_network :: "event \<Rightarrow> bool" where
  "is_network SendLoteRps = True"
| "is_network (CheckLoteStatus p) = True"
| "is_network (GetLoteResults p) = True"
| "is_network e = False"

definition n_status_calls :: "event list \<Rightarrow> nat" where
  "n_status_calls tr = length (filter is_check tr)"

section \<open>soap_client: the dictionaries it returns\<close>

text \<open>
  The dictionary returned by \<open>check_lote_status\<close>. \<open>sucesso\<close> is read with
  \<open>d['sucesso']\<close> and is always present; the other keys are read with \<open>d.get\<close> and
  may be absent.
\<close>

record status_dict =
  st_sucesso :: bool
  st_status :: "int option"
  st_status_descricao :: "string option"
  st_protocolo :: "string option"
  st_erro :: "string option"
  st_codigo_erro :: "string option"
  st_resposta_xml :: "string option"

definition get_status_description :: "int \<Rightarrow> string" where
  "get_status_description s =
     (if s = 1 then ''N'' @ a_til @ ''o Recebido''
      else if s = 2 then ''Processando''
      else if s = 3 then ''Erro no Processamento''
      else if s = 4 then ''Processado com Sucesso''
      else ''Status desconhecido: '' @ str_int s)"

section \<open>orchestrator: the status poller\<close>

text \<open>
  \<open>_fazer_polling_status(protocolo, max_tentativas, intervalo_segundos)\<close>. The remote
  query is \<open>check k protocolo\<close>, the answer to the query made after \<open>k\<close> earlier ones:
  \<open>Inl\<close> when the call raises, \<open>Inr\<close> the dictionary otherwise. The interval is a
  \<open>nat\<close>: \<open>time.sleep\<close> takes no negative length.

  The loop \<open>for tentativa in range(1, max_tentativas + 1)\<close> is a recursion on the
  number of iterations left; \<open>tentativa\<close> is carried along.
\<close>

type_synonym checker = "nat \<Rightarrow> string \<Rightarrow> exn + status_dict"

definition timeout_error :: "int \<Rightarrow> exn" where
  "timeout_error max_tentativas =
     OrchestrationError (''Timeout no polling ap'' @ o_acute @ ''s '' @ str_int max_tentativas
                          @ '' tentativas'')"

definition persistent_error :: "exn \<Rightarrow> exn" where
  "persistent_error e = OrchestrationError (''Erro persistente durante polling: '' @ str_exn e)"

definition query_failure :: "status_dict \<Rightarrow> exn" where
  "query_failure r =
     OrchestrationError (''Falha persistente na consulta de status: '' @ str_opt (st_erro r))"

fun polling_loop ::
  "checker \<Rightarrow> string \<Rightarrow> int \<Rightarrow> nat \<Rightarrow> nat \<Rightarrow> nat \<Rightarrow> event list
     \<Rightarrow> (exn + status_dict) \<times> event list" where
  "polling_loop check protocolo max_tentativas intervalo 0 tentativa tr =
     (Inl (timeout_error max_tentativas), tr)"
| "polling_loop check protocolo max_tentativas intervalo (Suc left) tentativa tr =
     (let tr1 = tr @ [CheckLoteStatus protocolo];
          next_try = polling_loop check protocolo max_tentativas intervalo left (Suc tentativa);
          wait = (\<lambda>t. if int tentativa < max_tentativas then t @ [Sleep intervalo] else t);
          on_exception = (\<lambda>e.
             if int tentativa = max_tentativas then (Inl (persistent_error e), tr1)
             else next_try (wait tr1))
      in case check (n_status_calls tr) protocolo of
           Inl e \<Rightarrow> on_exception e
         | Inr resultado_status \<Rightarrow>
             if \<not> st_sucesso resultado_status then
               (if int tentativa = max_tentativas then on_exception (query_failure resultado_status)
                else next_try tr1)
             else if st_status resultado_status = Some 1 then next_try (wait tr1)
             else if st_status resultado_status = Some 2 then next_try (wait tr1)
             else if st_status resultado_status = Some 3 then (Inr resultado_status, tr1)
             else if st_status resultado_status = Some 4 then (Inr resultado_status, tr1)
             else next_try (wait tr1))"

definition fazer_polling_status ::
  "checker \<Rightarrow> string \<Rightarrow> int \<Rightarrow> nat \<Rightarrow> event list \<Rightarrow> (exn + status_dict) \<times> event list" where
  "fazer_polling_status check protocolo max_tentativas intervalo tr =
     polling_loop check protocolo max_tentativas intervalo (nat max_tentativas) 1 tr"

text \<open>
  A scripted remote service: the answers to the first queries, in order, each an
  answered query with that status; every later query fails.
\<close>

definition status_reply :: "int \<Rightarrow> string \<Rightarrow> status_dict" where
  "status_reply s protocolo =
     \<lparr>st_sucesso = True, st_status = Some s,
      st_status_descricao = Some (get_status_description s),
      st_protocolo = Some protocolo, st_erro = None, st_codigo_erro = None,
      st_resposta_xml = None\<rparr>"

definition failed_reply :: "string \<Rightarrow> status_dict" where
  "failed_reply msg =
     \<lparr>st_sucesso = False, st_status = None, st_status_descricao = None,
      st_protocolo = None, st_erro = Some (''Erro inesperado: '' @ msg),
      st_codigo_erro = Some ''UNEXPECTED_ERROR'', st_resposta_xml = None\<rparr>"

definition scripted :: "int list \<Rightarrow> checker" where
  "scripted statuses k protocolo =
     (if k < length statuses then Inr (status_reply (statuses ! k) protocolo)
      else Inr (failed_reply ''script exhausted''))"

text \<open>
  Vocabulary for the poller's contract. An answer is terminal when the query was answered
  with status 3 (error) or 4 (success); a query is answered when it neither raised nor
  came back with \<open>sucesso = False\<close>.
\<close>

fun terminal :: "exn + status_dict \<Rightarrow> bool" where
  "terminal (Inl e) = False"
| "terminal (Inr r) = (st_sucesso r \<and> (st_status r = Some 3 \<or> st_status r = Some 4))"

fun answered :: "exn + status_dict \<Rightarrow> bool" where
  "answered (Inl e) = False"
| "answered (Inr r) = st_sucesso r"

text \<open>What the poller raises when the last attempt of the budget was not terminal.\<close>

definition exhausted_outcome :: "int \<Rightarrow> exn + status_dict \<Rightarrow> exn" where
  "exhausted_outcome m reply =
     (case reply of
        Inl e \<Rightarrow> persistent_error e
      | Inr r \<Rightarrow> if st_sucesso r then timeout_error m else persistent_error (query_failure r))"

text \<open>
  What one non-terminal attempt that is followed by another leaves in the trace, the
  answer to its query being \<open>check j protocolo\<close>: the query and then the sleep, or the
  query alone when it came back with \<open>sucesso = False\<close>.
\<close>

definition attempt_events :: "checker \<Rightarrow> string \<Rightarrow> nat \<Rightarrow> nat \<Rightarrow> event list" where
  "attempt_events check protocolo intervalo j =
     CheckLoteStatus protocolo
       # (case check j protocolo of
            Inl e \<Rightarrow> [Sleep intervalo]
          | Inr r \<Rightarrow> if st_sucesso r then [Sleep intervalo] else [])"

section \<open>orchestrator: the workflow\<close>

text \<open>
  The dictionary returned by \<open>soap_client.send_lote_rps\<close>. A key that is present holds
  a string; \<open>None\<close> is a key that is absent or holds \<open>None\<close>.
\<close>

record send_dict =
  sd_sucesso :: bool
  sd_protocolo :: "string option"
  sd_mensagem :: "string option"
  sd_erro :: "string option"
  sd_codigo_erro :: "string option"
  sd_resposta_xml :: "string option"

text \<open>One generated invoice, as the remote service reports it.\<close>

record nfse =
  nf_numero :: "string option"
  nf_codigo_verificacao :: "string option"
  nf_data_emissao :: "string option"
  nf_valor_servicos :: real
  nf_valor_iss :: real
  nf_link_visualizacao :: "string option"
  nf_xml_completo :: "string option"

text \<open>
  The dictionary returned by \<open>soap_client.get_lote_results\<close>. The keys \<open>nfse_list\<close> and
  \<open>nfse_geradas\<close> are two different keys, each present or absent.
\<close>

record results_dict =
  rd_sucesso :: bool
  rd_nfse_list :: "nfse list option"
  rd_nfse_geradas :: "nfse list option"
  rd_total_nfse :: "nat option"
  rd_protocolo :: "string option"
  rd_status_final :: "int option"
  rd_erro :: "string option"
  rd_codigo_erro :: "string option"
  rd_resposta_xml :: "string option"

text \<open>
  \<open>resultado_final\<close>, the dictionary the workflow returns. Timestamps are readings of
  the clock in seconds; \<open>fim\<close> is \<open>None\<close> until it is stamped.
\<close>

record workflow_result =
  wr_sucesso :: bool
  wr_inicio :: int
  wr_fim :: "int option"
  wr_duracao_segundos :: int
  wr_etapas_concluidas :: "string list"
  wr_protocolo :: "string option"
  wr_nfse_geradas :: "nfse list"
  wr_erros :: "string list"

text \<open>
  The modules the orchestrator imports and the clock, as it sees them: each call either
  raises (\<open>Inl\<close>) or returns. \<open>get_invoices_to_process\<close> may return \<open>None\<close>;
  \<open>create_lote_xml\<close> and \<open>sign_lote_rps_xml\<close> are tested against \<open>None\<close> by the
  orchestrator, so they may return it. The remote service changes with time:
  \<open>check_lote_status\<close> and \<open>get_lote_results\<close> are given the number of status queries
  made before. \<open>now_start\<close> and \<open>now_end\<close> are the two readings of \<open>datetime.now()\<close>.
\<close>

record ('inv, 'doc, 'signed) collaborators =
  c_get_invoices_to_process :: "exn + 'inv list option"
  c_gerar_numero_lote :: "exn + int"
  c_create_lote_xml :: "'inv list \<Rightarrow> int \<Rightarrow> exn + 'doc option"
  c_sign_lote_rps_xml :: "'doc \<Rightarrow> exn + 'signed option"
  c_send_lote_rps :: "'signed \<Rightarrow> exn + send_dict"
  c_check_lote_status :: checker
  c_get_lote_results :: "nat \<Rightarrow> string \<Rightarrow> exn + results_dict"
  c_now_start :: int
  c_now_end :: int

type_synonym run = "workflow_result \<times> event list"

definition add_erro :: "string \<Rightarrow> run \<Rightarrow> run" where
  "add_erro error_msg s = ((fst s)\<lparr>wr_erros := wr_erros (fst s) @ [error_msg]\<rparr>, snd s)"

definition add_etapa :: "string \<Rightarrow> run \<Rightarrow> run" where
  "add_etapa name s =
     ((fst s)\<lparr>wr_etapas_concluidas := wr_etapas_concluidas (fst s) @ [name]\<rparr>, snd s)"

definition did :: "event \<Rightarrow> run \<Rightarrow> run" where
  "did e s = (fst s, snd s @ [e])"

text \<open>
  Each step takes the run so far. \<open>Inl\<close> is the \<open>return resultado_final\<close> of a failed
  step; \<open>Inr\<close> carries the run on, with what the step produced.
\<close>

definition etapa1_obter_faturas ::
  "('inv, 'doc, 'signed) collaborators \<Rightarrow> run \<Rightarrow> run + run \<times> 'inv list" where
  "etapa1_obter_faturas c s0 =
     (let s = did GetInvoices s0 in
      case c_get_invoices_to_process c of
        Inl e \<Rightarrow> Inl (add_erro (''Erro ao obter faturas pendentes: '' @ str_exn e) s)
      | Inr invoices_data \<Rightarrow>
          (case invoices_data of
             None \<Rightarrow> Inl (add_erro ''Nenhuma fatura pendente para processar'' s)
           | Some invoices \<Rightarrow>
               if length invoices = 0
               then Inl (add_erro ''Nenhuma fatura pendente para processar'' s)
               else Inr (add_etapa ''obter_faturas'' s, invoices)))"

definition etapa2_construir_xml ::
  "('inv, 'doc, 'signed) collaborators \<Rightarrow> run \<Rightarrow> 'inv list \<Rightarrow> run + run \<times> 'doc" where
  "etapa2_construir_xml c s0 invoices_data =
     (let s1 = did GerarNumeroLote s0 in
      case c_gerar_numero_lote c of
        Inl e \<Rightarrow> Inl (add_erro (''Erro ao construir XML do lote: '' @ str_exn e) s1)
      | Inr numero_lote \<Rightarrow>
          (let s2 = did CreateLoteXml s1 in
           case c_create_lote_xml c invoices_data numero_lote of
             Inl e \<Rightarrow> Inl (add_erro (''Erro ao construir XML do lote: '' @ str_exn e) s2)
           | Inr None \<Rightarrow>
               Inl (add_erro (''Falha na constru'' @ c_ced @ a_til @ ''o do XML do lote'') s2)
           | Inr (Some xml_lote) \<Rightarrow> Inr (add_etapa ''construir_xml'' s2, xml_lote)))"

definition etapa3_assinar_xml ::
  "('inv, 'doc, 'signed) collaborators \<Rightarrow> run \<Rightarrow> 'doc \<Rightarrow> run + run \<times> 'signed" where
  "etapa3_assinar_xml c s0 xml_lote =
     (let s = did SignLoteRps s0 in
      case c_sign_lote_rps_xml c xml_lote of
        Inl e \<Rightarrow> Inl (add_erro (''Erro ao assinar XML: '' @ str_exn e) s)
      | Inr None \<Rightarrow> Inl (add_erro ''Falha na assinatura digital do XML'' s)
      | Inr (Some xml_assinado) \<Rightarrow> Inr (add_etapa ''assinar_xml'' s, xml_assinado))"

definition etapa4_enviar_lote ::
  "('inv, 'doc, 'signed) collaborators \<Rightarrow> run \<Rightarrow> 'signed \<Rightarrow> run + run \<times> string" where
  "etapa4_enviar_lote c s0 xml_assinado =
     (let s = did SendLoteRps s0 in
      case c_send_lote_rps c xml_assinado of
        Inl e \<Rightarrow> Inl (add_erro (''Erro ao enviar lote: '' @ str_exn e) s)
      | Inr resultado_envio \<Rightarrow>
          if \<not> sd_sucesso resultado_envio
          then Inl (add_erro (''Falha no envio: ''
                               @ get_or (sd_erro resultado_envio) ''Erro desconhecido'') s)
          else (case sd_protocolo resultado_envio of
                  None \<Rightarrow> Inl (add_erro (''Protocolo n'' @ a_til
                                           @ ''o retornado pelo web service'') s)
                | Some protocolo \<Rightarrow>
                    if protocolo = ''''
                    then Inl (add_erro (''Protocolo n'' @ a_til
                                         @ ''o retornado pelo web service'') s)
                    else Inr (add_etapa ''enviar_lote''
                               ((fst s)\<lparr>wr_protocolo := Some protocolo\<rparr>, snd s), protocolo)))"

text \<open>The poller is called with its defaults: 20 attempts, 15 seconds apart.\<close>

definition etapa5_polling_status ::
  "('inv, 'doc, 'signed) collaborators \<Rightarrow> run \<Rightarrow> string \<Rightarrow> run + run" where
  "etapa5_polling_status c s0 protocolo =
     (case fazer_polling_status (c_check_lote_status c) protocolo 20 15 (snd s0) of
        (Inl e, tr) \<Rightarrow>
          Inl (add_erro (''Erro durante polling de status: '' @ str_exn e) (fst s0, tr))
      | (Inr status_final, tr) \<Rightarrow>
          if st_status status_final = Some 3
          then Inl (add_erro (''Lote processado com erro: ''
                               @ get_or (st_erro status_final) ''Erro desconhecido'') (fst s0, tr))
          else if st_status status_final \<noteq> Some 4
          then Inl (add_erro (''Status final inesperado: ''
                               @ get_or (st_status_descricao status_final) ''Desconhecido'')
                      (fst s0, tr))
          else Inr (add_etapa ''polling_status'' (fst s0, tr)))"

definition etapa6_obter_resultados ::
  "('inv, 'doc, 'signed) collaborators \<Rightarrow> run \<Rightarrow> string \<Rightarrow> run + run" where
  "etapa6_obter_resultados c s0 protocolo =
     (let s = did (GetLoteResults protocolo) s0 in
      case c_get_lote_results c (n_status_calls (snd s0)) protocolo of
        Inl e \<Rightarrow> Inl (add_erro (''Erro ao obter resultados finais: '' @ str_exn e) s)
      | Inr resultado_final_ws \<Rightarrow>
          if \<not> rd_sucesso resultado_final_ws
          then Inl (add_erro (''Erro ao obter resultados: ''
                               @ get_or (rd_erro resultado_final_ws) ''Erro desconhecido'') s)
          else (let nfse_list = get_or (rd_nfse_list resultado_final_ws) []
                in Inr (add_etapa ''obter_resultados''
                         ((fst s)\<lparr>wr_nfse_geradas := nfse_list\<rparr>, snd s))))"

definition resultado_inicial :: "int \<Rightarrow> workflow_result" where
  "resultado_inicial start_time =
     \<lparr>wr_sucesso = False, wr_inicio = start_time, wr_fim = None, wr_duracao_segundos = 0,
      wr_etapas_concluidas = [], wr_protocolo = None, wr_nfse_geradas = [], wr_erros = []\<rparr>"

definition sucesso_completo :: "('inv, 'doc, 'signed) collaborators \<Rightarrow> run \<Rightarrow> run" where
  "sucesso_completo c s =
     ((fst s)\<lparr>wr_sucesso := True, wr_fim := Some (c_now_end c),
              wr_duracao_segundos := c_now_end c - c_now_start c\<rparr>, snd s)"

text \<open>
  \<open>process_pending_invoices()\<close>. Every call of a collaborator sits in the \<open>try\<close> of its
  own step, whose handler returns; the handler of the enclosing \<open>try\<close> (the only failure
  path that stamps \<open>fim\<close> and \<open>duracao_segundos\<close>) is reached by none of them.
\<close>

definition process_pending_invoices :: "('inv, 'doc, 'signed) collaborators \<Rightarrow> run" where
  "process_pending_invoices c =
     (case etapa1_obter_faturas c (resultado_inicial (c_now_start c), []) of
        Inl r \<Rightarrow> r
      | Inr (s1, invoices_data) \<Rightarrow>
     (case etapa2_construir_xml c s1 invoices_data of
        Inl r \<Rightarrow> r
      | Inr (s2, xml_lote) \<Rightarrow>
     (case etapa3_assinar_xml c s2 xml_lote of
        Inl r \<Rightarrow> r
      | Inr (s3, xml_assinado) \<Rightarrow>
     (case etapa4_enviar_lote c s3 xml_assinado of
        Inl r \<Rightarrow> r
      | Inr (s4, protocolo) \<Rightarrow>
     (case etapa5_polling_status c s4 protocolo of
        Inl r \<Rightarrow> r
      | Inr s5 \<Rightarrow>
     (case etapa6_obter_resultados c s5 protocolo of
        Inl r \<Rightarrow> r
      | Inr s6 \<Rightarrow> sucesso_completo c s6))))))"

text \<open>\<open>process_single_invoice(invoice_data)\<close>: the list it builds is not passed on.\<close>

definition process_single_invoice :: "('inv, 'doc, 'signed) collaborators \<Rightarrow> 'inv \<Rightarrow> run" where
  "process_single_invoice c invoice_data =
     (let invoices_list = [invoice_data] in process_pending_invoices c)"

section \<open>lxml: element trees\<close>

text \<open>
  An \<open>etree\<close> node is an element (tag, attributes in the order they were set, text,
  children) or a comment. The code mutates trees in place and holds references to nodes
  inside them; here a node inside a tree is named by its path, the positions of the
  children to follow from the root, and a mutation returns the new tree. Appending a
  child never moves the nodes already there, so a path taken before an append names
  the same node after it.
\<close>

datatype xml =
    Element string "(string \<times> string) list" "string option" "xml list"
  | Comment string

type_synonym path = "nat list"

fun tag_of :: "xml \<Rightarrow> string option" where
  "tag_of (Element tg ats tx cs) = Some tg"
| "tag_of (Comment s) = None"

fun children :: "xml \<Rightarrow> xml list" where
  "children (Element tg ats tx cs) = cs"
| "children (Comment s) = []"

fun text_of :: "xml \<Rightarrow> string option" where
  "text_of (Element tg ats tx cs) = tx"
| "text_of (Comment s) = Some s"

text \<open>\<open>element.get(name)\<close>: the attribute, or \<open>None\<close>.\<close>

fun get_attr :: "xml \<Rightarrow> string \<Rightarrow> string option" where
  "get_attr (Element tg ats tx cs) name = map_of ats name"
| "get_attr (Comment s) name = None"

text \<open>\<open>parent.append(child)\<close>, and \<open>parent.insert(0, child)\<close>.\<close>

fun append_child :: "xml \<Rightarrow> xml \<Rightarrow> xml" where
  "append_child (Element tg ats tx cs) c = Element tg ats tx (cs @ [c])"
| "append_child (Comment s) c = Comment s"

fun insert_first :: "xml \<Rightarrow> xml \<Rightarrow> xml" where
  "insert_first (Element tg ats tx cs) c = Element tg ats tx (c # cs)"
| "insert_first (Comment s) c = Comment s"

text \<open>A new element with text and no attribute or child.\<close>

definition leaf :: "string \<Rightarrow> string \<Rightarrow> xml" where
  "leaf tg tx = Element tg [] (Some tx) []"

text \<open>The node at a path, and the tree with the node at a path replaced.\<close>

fun subtree :: "xml \<Rightarrow> path \<Rightarrow> xml option" where
  "subtree t [] = Some t"
| "subtree (Element tg ats tx cs) (i # p) = (if i < length cs then subtree (cs ! i) p else None)"
| "subtree (Comment s) (i # p) = None"

fun update_at :: "path \<Rightarrow> (xml \<Rightarrow> xml) \<Rightarrow> xml \<Rightarrow> xml" where
  "update_at [] f t = f t"
| "update_at (i # p) f (Element tg ats tx cs) =
     (if i < length cs then Element tg ats tx (cs[i := update_at p f (cs ! i)])
      else Element tg ats tx cs)"
| "update_at (i # p) f (Comment s) = Comment s"

text \<open>
  \<open>root.xpath("//name")\<close>: every element of that name in the document, in document
  order (an element before its descendants, siblings left to right), as paths from the
  root; the element the query is made on is the root of its document.
  \<open>element.xpath("./name")\<close>: the children of that name.
\<close>

fun xpath_all :: "string \<Rightarrow> xml \<Rightarrow> path list"
  and xpath_all_list :: "string \<Rightarrow> nat \<Rightarrow> xml list \<Rightarrow> path list" where
  "xpath_all name (Element tg ats tx cs) =
     (if tg = name then [[]] else []) @ xpath_all_list name 0 cs"
| "xpath_all name (Comment s) = []"
| "xpath_all_list name i [] = []"
| "xpath_all_list name i (c # cs) =
     map ((#) i) (xpath_all name c) @ xpath_all_list name (Suc i) cs"

definition xpath_children :: "string \<Rightarrow> xml \<Rightarrow> xml list" where
  "xpath_children name t = filter (\<lambda>c. tag_of c = Some name) (children t)"

section \<open>xml_builder\<close>

text \<open>
  One invoice, the dictionary \<open>create_lote_xml\<close> reads, with the keys it reads: every
  key is there and holds a value of the type the builder prints, so no lookup raises.
  Python floats are values of a type \<open>'f\<close> left open; \<open>format(x, '.nf')\<close> is the
  parameter \<open>fmt n x\<close> of the functions that print them.
\<close>

record tomador =
  tom_cnpj :: string
  tom_razao_social :: string
  tom_endereco :: string
  tom_numero :: string
  tom_bairro :: string
  tom_codigo_municipio :: string
  tom_uf :: string
  tom_cep :: string

record 'f invoice =
  inv_id_rps :: string
  inv_numero_rps :: string
  inv_serie_rps :: string
  inv_tipo_rps :: int
  inv_data_emissao :: string
  inv_status_rps :: int
  inv_valor_servicos :: 'f
  inv_valor_iss :: 'f
  inv_aliquota :: 'f
  inv_iss_retido :: int
  inv_item_lista_servico :: string
  inv_discriminacao :: string
  inv_codigo_municipio :: string
  inv_tomador :: tomador

text \<open>The issuer's identity, from \<open>config.py\<close>.\<close>

definition PRESTADOR_CNPJ :: string where "PRESTADOR_CNPJ = ''32649500000145''"
definition PRESTADOR_IM :: string where "PRESTADOR_IM = ''123''"
definition CODIGO_MUNICIPIO :: string where "CODIGO_MUNICIPIO = ''2700102''"

text \<open>
  Each \<open>_build_*\<close> function of the source creates its element with
  \<open>etree.SubElement(parent, ...)\<close>, which appends it to \<open>parent\<close>. Here the function
  returns the element it builds, and the caller appends it.
\<close>

definition build_identificacao_rps :: "'f invoice \<Rightarrow> xml" where
  "build_identificacao_rps invoice =
     Element ''IdentificacaoRps'' [] None
       [leaf ''Numero'' (inv_numero_rps invoice),
        leaf ''Serie'' (inv_serie_rps invoice),
        leaf ''Tipo'' (str_int (inv_tipo_rps invoice))]"

definition build_servico :: "(nat \<Rightarrow> 'f \<Rightarrow> string) \<Rightarrow> 'f invoice \<Rightarrow> xml" where
  "build_servico fmt invoice =
     Element ''Servico'' [] None
       [Element ''Valores'' [] None
          [leaf ''ValorServicos'' (fmt 2 (inv_valor_servicos invoice)),
           leaf ''ValorIss'' (fmt 2 (inv_valor_iss invoice)),
           leaf ''Aliquota'' (fmt 4 (inv_aliquota invoice))],
        leaf ''IssRetido'' (str_int (inv_iss_retido invoice)),
        leaf ''ItemListaServico'' (inv_item_lista_servico invoice),
        leaf ''Discriminacao'' (inv_discriminacao invoice),
        leaf ''CodigoMunicipio'' (inv_codigo_municipio invoice)]"

definition build_prestador :: xml where
  "build_prestador =
     Element ''Prestador'' [] None
       [Element ''CpfCnpj'' [] None [leaf ''Cnpj'' PRESTADOR_CNPJ],
        leaf ''InscricaoMunicipal'' PRESTADOR_IM]"

definition build_endereco_tomador :: "tomador \<Rightarrow> xml" where
  "build_endereco_tomador tomador_data =
     Element ''Endereco'' [] None
       [leaf ''Endereco'' (tom_endereco tomador_data),
        leaf ''Numero'' (tom_numero tomador_data),
        leaf ''Bairro'' (tom_bairro tomador_data),
        leaf ''CodigoMunicipio'' (tom_codigo_municipio tomador_data),
        leaf ''Uf'' (tom_uf tomador_data),
        leaf ''Cep'' (tom_cep tomador_data)]"

definition build_tomador :: "tomador \<Rightarrow> xml" where
  "build_tomador tomador_data =
     Element ''Tomador'' [] None
       [Element ''IdentificacaoTomador'' [] None
          [Element ''CpfCnpj'' [] None [leaf ''Cnpj'' (tom_cnpj tomador_data)]],
        leaf ''RazaoSocial'' (tom_razao_social tomador_data),
        build_endereco_tomador tomador_data]"

definition build_inf_rps :: "(nat \<Rightarrow> 'f \<Rightarrow> string) \<Rightarrow> 'f invoice \<Rightarrow> xml" where
  "build_inf_rps fmt invoice =
     Element ''InfRps'' [(''id'', inv_id_rps invoice)] None
       [build_identificacao_rps invoice,
        leaf ''DataEmissao'' (inv_data_emissao invoice),
        leaf ''StatusRps'' (str_int (inv_status_rps invoice)),
        build_servico fmt invoice,
        build_prestador,
        build_tomador (inv_tomador invoice)]"

text \<open>\<open>_build_rps(parent, invoice)\<close>: the parent with the new \<open>Rps\<close> appended.\<close>

definition build_rps :: "(nat \<Rightarrow> 'f \<Rightarrow> string) \<Rightarrow> xml \<Rightarrow> 'f invoice \<Rightarrow> xml" where
  "build_rps fmt parent invoice =
     append_child parent (Element ''Rps'' [] None [build_inf_rps fmt invoice])"

text \<open>
  \<open>_build_lote_rps(parent, invoices, numero_lote, namespace)\<close>: the parent with the new
  \<open>LoteRps\<close> appended. The loop over the invoices is the fold.
\<close>

definition build_lote_rps ::
  "(nat \<Rightarrow> 'f \<Rightarrow> string) \<Rightarrow> xml \<Rightarrow> 'f invoice list \<Rightarrow> int \<Rightarrow> string \<Rightarrow> xml" where
  "build_lote_rps fmt parent invoices numero_lote namespace =
     (let lista_rps = foldl (build_rps fmt) (Element ''ListaRps'' [] None []) invoices
      in append_child parent
           (Element ''LoteRps'' [(''id'', ''lote_'' @ str_int numero_lote)] None
              [leaf ''NumeroLote'' (str_int numero_lote),
               Element ''CpfCnpj'' [] None [leaf ''Cnpj'' PRESTADOR_CNPJ],
               leaf ''InscricaoMunicipal'' PRESTADOR_IM,
               leaf ''QuantidadeRps'' (str_int (int (length invoices))),
               lista_rps]))"

definition create_lote_xml :: "(nat \<Rightarrow> 'f \<Rightarrow> string) \<Rightarrow> 'f invoice list \<Rightarrow> int \<Rightarrow> xml" where
  "create_lote_xml fmt invoices numero_lote =
     (let namespace = ''http://www.abrasf.org.br/nfse.xsd'';
          envio_element = Element ''EnviarLoteRpsEnvio'' [(''xmlns'', namespace)] None []
      in build_lote_rps fmt envio_element invoices numero_lote namespace)"

section \<open>config\<close>

text \<open>
  The switches and the certificate settings of \<open>config.py\<close>. \<open>CERT_PASSWORD\<close> is read
  from the environment.
\<close>

record config =
  cfg_CERT_PATH :: string
  cfg_CERT_PASSWORD :: "string option"
  cfg_TEST_MODE :: bool
  cfg_SKIP_SIGNATURE :: bool
  cfg_MOCK_WEBSERVICE :: bool

definition config_py :: "string option \<Rightarrow> config" where
  "config_py cert_pass =
     \<lparr>cfg_CERT_PATH = ''certs/seu_certificado.pfx'', cfg_CERT_PASSWORD = cert_pass,
      cfg_TEST_MODE = False, cfg_SKIP_SIGNATURE = True, cfg_MOCK_WEBSERVICE = True\<rparr>"

section \<open>signer\<close>

text \<open>
  What the signer takes from outside the repository: the file system and the \<open>xmlsec\<close>
  library. \<open>ctx_sign key doc p\<close> is \<open>ctx.sign(template)\<close> for the template at path \<open>p\<close>
  of the document \<open>doc\<close> as it stands at the call: it raises, or computes the digest
  value, the signature value and the certificate that it writes into the template.
\<close>

record 'k xmlsec =
  path_exists :: "string \<Rightarrow> bool"
  key_from_file :: "string \<Rightarrow> string option \<Rightarrow> exn + 'k option"
  ctx_sign :: "'k \<Rightarrow> xml \<Rightarrow> path \<Rightarrow> exn + string \<times> string \<times> string"

definition load_private_key_from_pfx ::
  "'k xmlsec \<Rightarrow> string \<Rightarrow> string option \<Rightarrow> exn + 'k" where
  "load_private_key_from_pfx xs cert_path cert_password =
     (if \<not> path_exists xs cert_path
      then Inl (FileNotFoundError (''Certificado n'' @ a_til @ ''o encontrado: '' @ cert_path))
      else case key_from_file xs cert_path cert_password of
             Inl e \<Rightarrow> Inl e
           | Inr None \<Rightarrow> Inl (ValueError ''Falha ao carregar a chave privada do certificado'')
           | Inr (Some key) \<Rightarrow> Inr key)"

definition ds :: "string \<Rightarrow> string" where
  "ds name = ''{http://www.w3.org/2000/09/xmldsig#}'' @ name"

definition create_signature_template :: "string \<Rightarrow> xml" where
  "create_signature_template reference_uri =
     Element (ds ''Signature'') [] None
       [Element (ds ''SignedInfo'') [] None
          [Element (ds ''CanonicalizationMethod'')
             [(''Algorithm'', ''http://www.w3.org/TR/2001/REC-xml-c14n-20010315'')] None [],
           Element (ds ''SignatureMethod'')
             [(''Algorithm'', ''http://www.w3.org/2000/09/xmldsig#rsa-sha1'')] None [],
           Element (ds ''Reference'') [(''URI'', reference_uri)] None
             [Element (ds ''Transforms'') [] None
                [Element (ds ''Transform'')
                   [(''Algorithm'', ''http://www.w3.org/2000/09/xmldsig#enveloped-signature'')]
                   None []],
              Element (ds ''DigestMethod'')
                [(''Algorithm'', ''http://www.w3.org/2000/09/xmldsig#sha1'')] None [],
              Element (ds ''DigestValue'') [] None []]],
        Element (ds ''SignatureValue'') [] None [],
        Element (ds ''KeyInfo'') [] None
          [Element (ds ''X509Data'') [] None
             [Element (ds ''X509Certificate'') [] None []]]]"

text \<open>Writing a value into the elements of a given name, as \<open>xmlsec\<close> fills a template.\<close>

fun set_text :: "string \<Rightarrow> string \<Rightarrow> xml \<Rightarrow> xml" where
  "set_text name v (Element tg ats tx cs) =
     Element tg ats (if tg = name then Some v else tx) (map (set_text name v) cs)"
| "set_text name v (Comment s) = Comment s"

definition fill_signature :: "string \<times> string \<times> string \<Rightarrow> xml \<Rightarrow> xml" where
  "fill_signature vals template =
     (case vals of (digest_value, signature_value, certificate) \<Rightarrow>
        set_text (ds ''X509Certificate'') certificate
          (set_text (ds ''SignatureValue'') signature_value
             (set_text (ds ''DigestValue'') digest_value template)))"

text \<open>\<open>_apply_signature(signature_template, key)\<close>, the template being at path \<open>p\<close>.\<close>

definition apply_signature :: "'k xmlsec \<Rightarrow> 'k \<Rightarrow> xml \<Rightarrow> path \<Rightarrow> exn + xml" where
  "apply_signature xs key xml_root p =
     (case ctx_sign xs key xml_root p of
        Inl e \<Rightarrow> Inl e
      | Inr vals \<Rightarrow> Inr (update_at p (fill_signature vals) xml_root))"

text \<open>
  \<open>_sign_internal_rps_elements(xml_root, key)\<close>. The \<open>Rps\<close> elements are collected
  first; the loop then visits them in that order, reading each in the tree as it stands.
  (A collected path always names a node; the \<open>None\<close> case is there for totality.)
\<close>

fun sign_internal_loop :: "'k xmlsec \<Rightarrow> 'k \<Rightarrow> path list \<Rightarrow> xml \<Rightarrow> exn + xml" where
  "sign_internal_loop xs key [] xml_root = Inr xml_root"
| "sign_internal_loop xs key (p # ps) xml_root =
     (case subtree xml_root p of
        None \<Rightarrow> sign_internal_loop xs key ps xml_root
      | Some rps_element \<Rightarrow>
          (case xpath_children ''InfRps'' rps_element of
             [] \<Rightarrow> sign_internal_loop xs key ps xml_root
           | inf_rps # others \<Rightarrow>
               (case get_attr inf_rps ''id'' of
                  None \<Rightarrow> sign_internal_loop xs key ps xml_root
                | Some inf_rps_id \<Rightarrow>
                    if inf_rps_id = '''' then sign_internal_loop xs key ps xml_root
                    else
                      (let signature_template = create_signature_template (''#'' @ inf_rps_id);
                           tree1 = update_at p (\<lambda>r. append_child r signature_template) xml_root
                       in case apply_signature xs key tree1
                                 (p @ [length (children rps_element)]) of
                            Inl e \<Rightarrow> Inl e
                          | Inr tree2 \<Rightarrow> sign_internal_loop xs key ps tree2))))"

definition sign_internal_rps_elements :: "'k xmlsec \<Rightarrow> 'k \<Rightarrow> xml \<Rightarrow> exn + xml" where
  "sign_internal_rps_elements xs key xml_root =
     sign_internal_loop xs key (xpath_all ''Rps'' xml_root) xml_root"

text \<open>\<open>_sign_external_lote_element(xml_root, key)\<close>.\<close>

definition sign_external_lote_element :: "'k xmlsec \<Rightarrow> 'k \<Rightarrow> xml \<Rightarrow> exn + xml" where
  "sign_external_lote_element xs key xml_root =
     (case xpath_all ''LoteRps'' xml_root of
        [] \<Rightarrow> Inl (ValueError (''Elemento LoteRps n'' @ a_til @ ''o encontrado no XML''))
      | p # others \<Rightarrow>
          (case Option.bind (subtree xml_root p) (\<lambda>lote_rps. get_attr lote_rps ''id'') of
             None \<Rightarrow> Inl (ValueError (''Atributo id n'' @ a_til
                                        @ ''o encontrado no elemento LoteRps''))
           | Some lote_rps_id \<Rightarrow>
               if lote_rps_id = ''''
               then Inl (ValueError (''Atributo id n'' @ a_til
                                      @ ''o encontrado no elemento LoteRps''))
               else
                 (let signature_template = create_signature_template (''#'' @ lote_rps_id);
                      tree1 = append_child xml_root signature_template
                  in apply_signature xs key tree1 [length (children xml_root)])))"

text \<open>
  \<open>sign_lote_rps_xml(xml_tree_root)\<close>. The bytes it returns are the serialisation of a
  tree; the result here is that tree.
\<close>

definition sign_lote_rps_xml :: "config \<Rightarrow> 'k xmlsec \<Rightarrow> xml \<Rightarrow> exn + xml" where
  "sign_lote_rps_xml cfg xs xml_tree_root =
     (if cfg_SKIP_SIGNATURE cfg then Inr xml_tree_root
      else if cfg_TEST_MODE cfg
      then Inr (insert_first xml_tree_root
                  (Comment '' ASSINATURA DIGITAL SIMULADA - MODO TESTE ''))
      else
        (case load_private_key_from_pfx xs (cfg_CERT_PATH cfg) (cfg_CERT_PASSWORD cfg) of
           Inl e \<Rightarrow> Inl e
         | Inr key \<Rightarrow>
             (case sign_internal_rps_elements xs key xml_tree_root of
                Inl e \<Rightarrow> Inl e
              | Inr tree1 \<Rightarrow> sign_external_lote_element xs key tree1)))"

section \<open>data_source\<close>

text \<open>
  \<open>DataSource.get_invoices_to_process()\<close>: one invoice made from the sample record of
  \<open>obter_dados_rps_exemplo\<close>. \<open>data_emissao\<close> is the clock reading printed by
  \<open>strftime\<close>, a parameter here. The amounts are Python floats, read as reals.
\<close>

definition get_invoices_to_process :: "string \<Rightarrow> real invoice list" where
  "get_invoices_to_process data_emissao =
     [\<lparr>inv_id_rps = ''rps_'' @ str_int 1,
       inv_numero_rps = str_int 1,
       inv_serie_rps = ''1'',
       inv_tipo_rps = 1,
       inv_data_emissao = data_emissao,
       inv_status_rps = 1,
       inv_valor_servicos = 1000,
       inv_valor_iss = 1000 * 0.05,
       inv_aliquota = 0.05,
       inv_iss_retido = 2,
       inv_item_lista_servico = ''01.01'',
       inv_discriminacao = ''Servi'' @ c_ced @ ''os de consultoria em tecnologia da informa''
                            @ c_ced @ a_til @ ''o'',
       inv_codigo_municipio = CODIGO_MUNICIPIO,
       inv_tomador =
         \<lparr>tom_cnpj = ''12345678000195'',
          tom_razao_social = ''Empresa Tomadora de Servi'' @ c_ced @ ''os Ltda'',
          tom_endereco = ''Rua das Flores, 123'',
          tom_numero = ''123'',
          tom_bairro = ''Centro'',
          tom_codigo_municipio = CODIGO_MUNICIPIO,
          tom_uf = ''AL'',
          tom_cep = ''57300000''\<rparr>\<rparr>]"

section \<open>soap_client\<close>

text \<open>
  The remote service behind the three operations, for the runs that are not simulated:
  creating the SOAP client, the call and the parsing of the answer
  (\<open>_processar_resposta_*\<close>) together either raise or give the dictionary.
\<close>

record webservice =
  ws_recepcionar_lote_rps :: "xml \<Rightarrow> exn + send_dict"
  ws_consultar_situacao_lote :: "nat \<Rightarrow> string \<Rightarrow> exn + status_dict"
  ws_consultar_lote_rps :: "string \<Rightarrow> exn + results_dict"

definition send_failure :: "string \<Rightarrow> string \<Rightarrow> send_dict" where
  "send_failure erro codigo_erro =
     \<lparr>sd_sucesso = False, sd_protocolo = None, sd_mensagem = None, sd_erro = Some erro,
      sd_codigo_erro = Some codigo_erro, sd_resposta_xml = None\<rparr>"

text \<open>\<open>send_lote_rps(signed_xml_bytes)\<close>; \<open>stamp\<close> is the clock reading of the simulation.\<close>

definition send_lote_rps :: "config \<Rightarrow> string \<Rightarrow> webservice \<Rightarrow> xml \<Rightarrow> send_dict" where
  "send_lote_rps cfg stamp ws signed_xml =
     (if cfg_MOCK_WEBSERVICE cfg
      then \<lparr>sd_sucesso = True, sd_protocolo = Some (''TESTE_'' @ stamp),
            sd_mensagem = Some ''Lote recebido com sucesso (simulado)'',
            sd_erro = None, sd_codigo_erro = None,
            sd_resposta_xml = Some (''<EnviarLoteRpsResposta><Protocolo>TESTE_20250930112656''
                                     @ ''</Protocolo></EnviarLoteRpsResposta>'')\<rparr>
      else case ws_recepcionar_lote_rps ws signed_xml of
             Inr resultado \<Rightarrow> resultado
           | Inl (Fault m) \<Rightarrow> send_failure (''Erro SOAP: '' @ m) ''SOAP_FAULT''
           | Inl (TransportError m) \<Rightarrow>
               send_failure (''Erro de transporte: '' @ m) ''TRANSPORT_ERROR''
           | Inl e \<Rightarrow> send_failure (''Erro inesperado: '' @ str_exn e) ''UNEXPECTED_ERROR'')"

text \<open>\<open>check_lote_status(protocolo)\<close>, after \<open>k\<close> earlier status queries.\<close>

definition check_lote_status :: "config \<Rightarrow> webservice \<Rightarrow> nat \<Rightarrow> string \<Rightarrow> status_dict" where
  "check_lote_status cfg ws k protocolo =
     (if cfg_MOCK_WEBSERVICE cfg
      then \<lparr>st_sucesso = True, st_status = Some 4,
            st_status_descricao = Some ''Lote processado com sucesso'',
            st_protocolo = Some protocolo, st_erro = None, st_codigo_erro = None,
            st_resposta_xml = Some (''<ConsultarSituacaoLoteRpsResposta><Situacao>4</Situacao>''
                                     @ ''<Protocolo>'' @ protocolo
                                     @ ''</Protocolo></ConsultarSituacaoLoteRpsResposta>'')\<rparr>
      else case ws_consultar_situacao_lote ws k protocolo of
             Inr resultado \<Rightarrow> resultado
           | Inl e \<Rightarrow>
               \<lparr>st_sucesso = False, st_status = None, st_status_descricao = None,
                st_protocolo = None, st_erro = Some (''Erro inesperado: '' @ str_exn e),
                st_codigo_erro = Some ''UNEXPECTED_ERROR'', st_resposta_xml = None\<rparr>)"

definition results_failure :: "string \<Rightarrow> string \<Rightarrow> results_dict" where
  "results_failure erro codigo_erro =
     \<lparr>rd_sucesso = False, rd_nfse_list = None, rd_nfse_geradas = None, rd_total_nfse = None,
      rd_protocolo = None, rd_status_final = None, rd_erro = Some erro,
      rd_codigo_erro = Some codigo_erro, rd_resposta_xml = None\<rparr>"

definition resposta_consultar_lote :: string where
  "resposta_consultar_lote =
     ''<ConsultarLoteRpsResposta><ListaNfse><CompNfse><Nfse><InfNfse><Numero>000000001</Numero>''
     @ ''</InfNfse></Nfse></CompNfse></ListaNfse></ConsultarLoteRpsResposta>''"

text \<open>\<open>get_nfse_by_lote(protocolo)\<close>: its list is under the key \<open>nfse_list\<close>.\<close>

definition get_nfse_by_lote :: "config \<Rightarrow> webservice \<Rightarrow> string \<Rightarrow> results_dict" where
  "get_nfse_by_lote cfg ws protocolo =
     (if cfg_MOCK_WEBSERVICE cfg
      then \<lparr>rd_sucesso = True,
            rd_nfse_list = Some
              [\<lparr>nf_numero = Some ''000000001'', nf_codigo_verificacao = Some ''ABC123'',
                nf_data_emissao = Some ''2024-01-01T10:00:00'', nf_valor_servicos = 1000,
                nf_valor_iss = 50, nf_link_visualizacao = None, nf_xml_completo = None\<rparr>],
            rd_nfse_geradas = None, rd_total_nfse = None, rd_protocolo = Some protocolo,
            rd_status_final = None, rd_erro = None, rd_codigo_erro = None,
            rd_resposta_xml = Some resposta_consultar_lote\<rparr>
      else case ws_consultar_lote_rps ws protocolo of
             Inr resultado \<Rightarrow> resultado
           | Inl e \<Rightarrow> results_failure (''Erro inesperado: '' @ str_exn e) ''UNEXPECTED_ERROR'')"

text \<open>
  \<open>get_lote_results(protocolo)\<close>: in both branches the list of generated invoices is
  under the key \<open>nfse_geradas\<close>, and there is no key \<open>nfse_list\<close>.
\<close>

definition get_lote_results :: "config \<Rightarrow> webservice \<Rightarrow> nat \<Rightarrow> string \<Rightarrow> results_dict" where
  "get_lote_results cfg ws k protocolo =
     (if cfg_MOCK_WEBSERVICE cfg
      then \<lparr>rd_sucesso = True, rd_nfse_list = None,
            rd_nfse_geradas = Some
              [\<lparr>nf_numero = Some ''000000001'', nf_codigo_verificacao = Some ''ABC123'',
                nf_data_emissao = Some ''2024-01-01T10:00:00'', nf_valor_servicos = 1000,
                nf_valor_iss = 50,
                nf_link_visualizacao =
                  Some ''https://nfse.arapiraca.al.gov.br/visualizar/000000001/ABC123'',
                nf_xml_completo = None\<rparr>],
            rd_total_nfse = Some 1, rd_protocolo = Some protocolo, rd_status_final = None,
            rd_erro = None, rd_codigo_erro = None,
            rd_resposta_xml = Some resposta_consultar_lote\<rparr>
      else
        (let status_result = check_lote_status cfg ws k protocolo in
         if \<not> st_sucesso status_result
         then results_failure
                (''Erro ao consultar status: ''
                   @ get_or (st_erro status_result) ''Erro desconhecido'')
                ''STATUS_CHECK_ERROR''
         else if st_status status_result \<noteq> Some 4
         then results_failure
                (''Lote ainda n'' @ a_til @ ''o processado. Status: ''
                   @ (case st_status status_result of None \<Rightarrow> ''N/A'' | Some s \<Rightarrow> str_int s))
                ''LOTE_NOT_PROCESSED''
         else
           (let nfse_result = get_nfse_by_lote cfg ws protocolo in
            if \<not> rd_sucesso nfse_result
            then results_failure
                   (''Erro ao obter NFSe: '' @ get_or (rd_erro nfse_result) ''Erro desconhecido'')
                   ''NFSE_RETRIEVAL_ERROR''
            else
              (let nfse_list = get_or (rd_nfse_list nfse_result) [] in
               \<lparr>rd_sucesso = True, rd_nfse_list = None, rd_nfse_geradas = Some nfse_list,
                rd_total_nfse = Some (length nfse_list), rd_protocolo = Some protocolo,
                rd_status_final = st_status status_result, rd_erro = None,
                rd_codigo_erro = None,
                rd_resposta_xml = Some (get_or (rd_resposta_xml nfse_result) '''')\<rparr>))))"

section \<open>The repository's own modules as the orchestrator's collaborators\<close>

text \<open>The readings of \<open>datetime.now()\<close> made during one run, each as it is used.\<close>

record clock =
  clk_start :: int
  clk_data_emissao :: string
  clk_numero_lote :: int
  clk_protocolo :: string
  clk_end :: int

definition repo_collaborators ::
  "config \<Rightarrow> 'k xmlsec \<Rightarrow> webservice \<Rightarrow> (nat \<Rightarrow> real \<Rightarrow> string) \<Rightarrow> clock
     \<Rightarrow> (real invoice, xml, xml) collaborators" where
  "repo_collaborators cfg xs ws fmt clk =
     \<lparr>c_get_invoices_to_process = Inr (Some (get_invoices_to_process (clk_data_emissao clk))),
      c_gerar_numero_lote = Inr (clk_numero_lote clk),
      c_create_lote_xml = (\<lambda>invoices numero_lote.
         Inr (Some (create_lote_xml fmt invoices numero_lote))),
      c_sign_lote_rps_xml = (\<lambda>xml_lote.
         case sign_lote_rps_xml cfg xs xml_lote of
           Inl e \<Rightarrow> Inl e
         | Inr xml_bytes \<Rightarrow> Inr (Some xml_bytes)),
      c_send_lote_rps = (\<lambda>xml_assinado.
         Inr (send_lote_rps cfg (clk_protocolo clk) ws xml_assinado)),
      c_check_lote_status = (\<lambda>k protocolo. Inr (check_lote_status cfg ws k protocolo)),
      c_get_lote_results = (\<lambda>k protocolo. Inr (get_lote_results cfg ws k protocolo)),
      c_now_start = clk_start clk,
      c_now_end = clk_end clk\<rparr>"

text \<open>
  The simulated end-to-end run of the specification: the switches of \<open>config.py\<close>
  (signature skipped, remote service simulated), batch number 20250930112656, protocol
  \<open>TESTE_20250930112656\<close>. Nothing of \<open>xmlsec\<close> or of the remote service is reached.
\<close>

definition no_xmlsec :: "unit xmlsec" where
  "no_xmlsec =
     \<lparr>path_exists = (\<lambda>p. False),
      key_from_file = (\<lambda>p pw. Inl (XmlsecError ''no key'')),
      ctx_sign = (\<lambda>key doc p. Inl (XmlsecError ''no key''))\<rparr>"

definition no_webservice :: webservice where
  "no_webservice =
     \<lparr>ws_recepcionar_lote_rps = (\<lambda>x. Inl (TransportError ''unreachable'')),
      ws_consultar_situacao_lote = (\<lambda>k p. Inl (TransportError ''unreachable'')),
      ws_consultar_lote_rps = (\<lambda>p. Inl (TransportError ''unreachable''))\<rparr>"

definition simulated_clock :: clock where
  "simulated_clock =
     \<lparr>clk_start = 0, clk_data_emissao = ''2025-09-30T11:26:56'',
      clk_numero_lote = 20250930112656, clk_protocolo = ''20250930112656'', clk_end = 1\<rparr>"

definition simulated_run :: "(nat \<Rightarrow> real \<Rightarrow> string) \<Rightarrow> run" where
  "simulated_run fmt =
     process_pending_invoices
       (repo_collaborators (config_py None) no_xmlsec no_webservice fmt simulated_clock)"

section \<open>Vocabulary for the workflow's properties\<close>

text \<open>
  A run that is still going after \<open>k\<close> completed steps, and a run that a failed step has
  returned after \<open>k\<close> completed steps. Neither has an end time or a duration.
\<close>

definition pending :: "nat \<Rightarrow> run \<Rightarrow> bool" where
  "pending k s =
     (\<not> wr_sucesso (fst s) \<and> wr_erros (fst s) = [] \<and> wr_fim (fst s) = None
      \<and> wr_duracao_segundos (fst s) = 0 \<and> length (wr_etapas_concluidas (fst s)) = k)"

definition failed_after :: "nat \<Rightarrow> run \<Rightarrow> bool" where
  "failed_after k s =
     (\<not> wr_sucesso (fst s) \<and> length (wr_erros (fst s)) = 1 \<and> wr_fim (fst s) = None
      \<and> wr_duracao_segundos (fst s) = 0 \<and> length (wr_etapas_concluidas (fst s)) = k)"

section \<open>Vocabulary for the documents\<close>

text \<open>
  The parts of the document that \<open>create_lote_xml\<close> builds, named so that its shape can
  be stated: the \<open>Rps\<close> of one invoice, the \<open>LoteRps\<close> around a list of \<open>Rps\<close> elements,
  the root around its children; and the \<open>Rps\<close> of one invoice once signed, the signature
  block following the \<open>InfRps\<close> as its sibling.
\<close>

definition unsigned_rps :: "(nat \<Rightarrow> 'f \<Rightarrow> string) \<Rightarrow> 'f invoice \<Rightarrow> xml" where
  "unsigned_rps fmt invoice = Element ''Rps'' [] None [build_inf_rps fmt invoice]"

definition lote_with :: "int \<Rightarrow> nat \<Rightarrow> xml list \<Rightarrow> xml" where
  "lote_with numero_lote quantidade rps_list =
     Element ''LoteRps'' [(''id'', ''lote_'' @ str_int numero_lote)] None
       [leaf ''NumeroLote'' (str_int numero_lote),
        Element ''CpfCnpj'' [] None [leaf ''Cnpj'' PRESTADOR_CNPJ],
        leaf ''InscricaoMunicipal'' PRESTADOR_IM,
        leaf ''QuantidadeRps'' (str_int (int quantidade)),
        Element ''ListaRps'' [] None rps_list]"

definition envio_with :: "xml list \<Rightarrow> xml" where
  "envio_with cs =
     Element ''EnviarLoteRpsEnvio'' [(''xmlns'', ''http://www.abrasf.org.br/nfse.xsd'')] None cs"


section \<open>Vocabulary for the signer's properties\<close>


definition lote_rps_id :: "xml \<Rightarrow> string option" where
  "lote_rps_id xml_root =
     (case xpath_all ''LoteRps'' xml_root of
        [] \<Rightarrow> None
      | p # others \<Rightarrow> Option.bind (subtree xml_root p) (\<lambda>lote_rps. get_attr lote_rps ''id''))"

text \<open>
  A configuration with signing switched on, and a stand-in for \<open>xmlsec\<close> and the
  certificate file to run the signer on concrete documents: the key always loads, and
  the digest value written into a template tells how many signature blocks (the
  template included) the document held when the template was signed.
\<close>

definition signing_config :: config where
  "signing_config = (config_py None)\<lparr>cfg_SKIP_SIGNATURE := False\<rparr>"

definition stub_values :: "nat \<Rightarrow> string \<times> string \<times> string" where
  "stub_values k =
     (''digest of a document with '' @ str_int (int k) @ '' signature blocks'',
      ''signature value'', ''certificate'')"

definition stub_xmlsec :: "unit xmlsec" where
  "stub_xmlsec =
     \<lparr>path_exists = (\<lambda>p. True),
      key_from_file = (\<lambda>p pw. Inr (Some ())),
      ctx_sign = (\<lambda>key doc p. Inr (stub_values (length (xpath_all (ds ''Signature'') doc))))\<rparr>"

definition flat_fmt :: "nat \<Rightarrow> real \<Rightarrow> string" where
  "flat_fmt n x = ''0.00''"




definition lote_without_id_document :: xml where
  "lote_without_id_document =
     Element ''EnviarLoteRpsEnvio'' [] None
       [Element ''LoteRps'' [] None
          [Element ''ListaRps'' [] None
             [Element ''Rps'' [] None [Element ''InfRps'' [(''id'', ''rps_1'')] None []]]]]"


section \<open>Vocabulary for the single-invoice entry point\<close>

text \<open>
  Steps 2 to 6 of the workflow and its completion, run on a given list of invoices from
  the run reached after step 1: what \<open>process_pending_invoices\<close> does once step 1 has
  handed it that list.
\<close>

definition etapas_2_a_6 ::
  "('inv, 'doc, 'signed) collaborators \<Rightarrow> run \<Rightarrow> 'inv list \<Rightarrow> run" where
  "etapas_2_a_6 c s1 invoices_data =
     (case etapa2_construir_xml c s1 invoices_data of
        Inl r \<Rightarrow> r
      | Inr (s2, xml_lote) \<Rightarrow>
     (case etapa3_assinar_xml c s2 xml_lote of
        Inl r \<Rightarrow> r
      | Inr (s3, xml_assinado) \<Rightarrow>
     (case etapa4_enviar_lote c s3 xml_assinado of
        Inl r \<Rightarrow> r
      | Inr (s4, protocolo) \<Rightarrow>
     (case etapa5_polling_status c s4 protocolo of
        Inl r \<Rightarrow> r
      | Inr s5 \<Rightarrow>
     (case etapa6_obter_resultados c s5 protocolo of
        Inl r \<Rightarrow> r
      | Inr s6 \<Rightarrow> sucesso_completo c s6)))))"

text \<open>
  The repository's modules with a builder that tells which invoices it was asked to
  build, by raising with their \<open>id_rps\<close>; and an invoice that is not the data source's.
\<close>

definition probing_collaborators :: "(real invoice, xml, xml) collaborators" where
  "probing_collaborators =
     (repo_collaborators (config_py None) no_xmlsec no_webservice flat_fmt simulated_clock)
       \<lparr>c_create_lote_xml := (\<lambda>invoices numero_lote.
            Inl (OtherException (''asked to build '' @ concat (map inv_id_rps invoices))))\<rparr>"

definition other_invoice :: "real invoice" where
  "other_invoice =
     (hd (get_invoices_to_process ''2030-01-01T00:00:00''))\<lparr>inv_id_rps := ''rps_777''\<rparr>"

section \<open>Properties of the status poller\<close>

lemma n_status_calls_check: "n_status_calls (tr @ [CheckLoteStatus p]) = Suc (n_status_calls tr)"
  by (simp add: n_status_calls_def)

lemma n_status_calls_check_sleep:
  "n_status_calls ((tr @ [CheckLoteStatus p]) @ [Sleep iv]) = Suc (n_status_calls tr)"
  by (simp add: n_status_calls_def)

lemma shift_not_terminal:
  assumes "\<forall>j<Suc k. \<not> terminal (check (c + j) p)" and "c0 = Suc c"
  shows "\<forall>j<k. \<not> terminal (check (c0 + j) p)"
proof (intro allI impI)
  fix j assume "j < k"
  then have "\<not> terminal (check (c + Suc j) p)"
    using assms(1) by (meson Suc_less_eq)
  then show "\<not> terminal (check (c0 + j) p)" using assms(2) by simp
qed

text \<open>
  The loop, started with \<open>left\<close> iterations to go at attempt \<open>t\<close>; the budget ends at
  attempt \<open>m\<close>. If the answer \<open>k\<close> queries from now is the first terminal one and is
  within the budget, the loop returns it after \<open>k + 1\<close> queries.
\<close>

lemma polling_loop_terminal:
  assumes "k < left" and "int t + int left = m + 1"
    and "terminal (check (n_status_calls tr + k) p)"
    and "\<forall>j<k. \<not> terminal (check (n_status_calls tr + j) p)"
  shows "\<exists>tr'. polling_loop check p m iv left t tr = (check (n_status_calls tr + k) p, tr')
            \<and> n_status_calls tr' = n_status_calls tr + Suc k"
  using assms
proof (induction k arbitrary: left t tr)
  case 0
  then obtain l where l: "left = Suc l" by (cases left) auto
  from 0 obtain r where r: "check (n_status_calls tr) p = Inr r" "st_sucesso r"
      "st_status r = Some 3 \<or> st_status r = Some 4"
    by (cases "check (n_status_calls tr) p") auto
  then show ?case unfolding l by (auto simp: Let_def n_status_calls_def)
next
  case (Suc k)
  then obtain l where l: "left = Suc l" by (cases left) auto
  have lt: "int t < m" "int t \<noteq> m" using Suc.prems(1,2) l by auto
  have k: "k < l" using Suc.prems(1) l by simp
  have inv: "int (Suc t) + int l = m + 1" using Suc.prems(2) l by simp
  have nt: "\<not> terminal (check (n_status_calls tr) p)" using Suc.prems(4) by force
  note c1 = n_status_calls_check [of tr p]
  note c2 = n_status_calls_check_sleep [of tr p iv]
  have ih: "\<exists>tr'. polling_loop check p m iv l (Suc t) tr0 = (check (n_status_calls tr + Suc k) p, tr')
            \<and> n_status_calls tr' = n_status_calls tr + Suc (Suc k)"
    if eq: "n_status_calls tr0 = Suc (n_status_calls tr)" for tr0
  proof -
    have a: "terminal (check (n_status_calls tr0 + k) p)"
      using Suc.prems(3) eq by simp
    have b: "\<forall>j<k. \<not> terminal (check (n_status_calls tr0 + j) p)"
      using shift_not_terminal [where check = check and c = "n_status_calls tr" and p = p
          and k = k and ?c0.0 = "n_status_calls tr0"] Suc.prems(4) eq by blast
    show ?thesis using Suc.IH [OF k inv a b] eq by simp
  qed
  show ?case
  proof (cases "check (n_status_calls tr) p")
    case (Inl e)
    then show ?thesis unfolding l using lt ih [OF c2] by (simp add: Let_def)
  next
    case (Inr r)
    then show ?thesis unfolding l using lt nt ih [OF c2] ih [OF c1] by (auto simp: Let_def)
  qed
qed

text \<open>
  The same loop when no answer within the budget is terminal: it makes every query of
  the budget and raises; which error depends on the last answer alone.
\<close>

lemma polling_loop_exhausted:
  assumes "int t + int left = m + 1"
    and "\<forall>j<left. \<not> terminal (check (n_status_calls tr + j) p)"
  shows "\<exists>tr'. polling_loop check p m iv left t tr =
            (Inl (if left = 0 then timeout_error m
                  else exhausted_outcome m (check (n_status_calls tr + left - 1) p)), tr')
            \<and> n_status_calls tr' = n_status_calls tr + left"
  using assms
proof (induction left arbitrary: t tr)
  case 0
  then show ?case by simp
next
  case (Suc l)
  let ?c = "n_status_calls tr"
  note c1 = n_status_calls_check [of tr p]
  note c2 = n_status_calls_check_sleep [of tr p iv]
  have inv: "int (Suc t) + int l = m + 1" using Suc.prems(1) by simp
  have nt: "\<not> terminal (check ?c p)" using Suc.prems(2) by force
  have ih: "\<exists>tr'. polling_loop check p m iv l (Suc t) tr0 =
            (Inl (if l = 0 then timeout_error m
                  else exhausted_outcome m (check (?c + l) p)), tr')
            \<and> n_status_calls tr' = ?c + Suc l"
    if eq: "n_status_calls tr0 = Suc ?c" for tr0
  proof -
    have b: "\<forall>j<l. \<not> terminal (check (n_status_calls tr0 + j) p)"
      using shift_not_terminal [where check = check and c = "n_status_calls tr" and p = p
          and k = l and ?c0.0 = "n_status_calls tr0"] Suc.prems(2) eq by blast
    have "l \<noteq> 0 \<Longrightarrow> n_status_calls tr0 + l - 1 = ?c + l" using eq by simp
    then show ?thesis using Suc.IH [OF inv b] eq by auto
  qed
  show ?case
  proof (cases "l = 0")
    case True
    then have tm: "int t = m" using Suc.prems(1) by simp
    show ?thesis
    proof (cases "check ?c p")
      case (Inl e)
      then show ?thesis using True tm c1 by (simp add: Let_def exhausted_outcome_def)
    next
      case (Inr r)
      then show ?thesis using True tm nt
        by (auto simp: Let_def exhausted_outcome_def n_status_calls_def)
    qed
  next
    case False
    then have lt: "int t < m" "int t \<noteq> m" using Suc.prems(1) by auto
    show ?thesis
    proof (cases "check ?c p")
      case (Inl e)
      then show ?thesis using lt False ih [OF c2] by (simp add: Let_def)
    next
      case (Inr r)
      then show ?thesis using lt False nt ih [OF c2] ih [OF c1] by (auto simp: Let_def)
    qed
  qed
qed

lemma timeout_ne_persistent: "timeout_error m \<noteq> persistent_error e"
  by (simp add: timeout_error_def persistent_error_def)

text \<open>
  Claim C5. Whatever the remote service answers, if the first terminal answer (status 3
  or 4) is the one to query number \<open>k + 1\<close> and that query is within the budget of
  \<open>max_tentativas\<close>, then \<open>_fazer_polling_status\<close> returns exactly that answer and has
  made exactly \<open>k + 1\<close> status queries: it stops at the first terminal status. The
  earlier answers may be any non-terminal status, a failed query or a raised exception.
\<close>

theorem polling_stops_at_first_terminal:
  assumes "int k < max_tentativas"
    and "terminal (check (n_status_calls tr + k) protocolo)"
    and "\<forall>j<k. \<not> terminal (check (n_status_calls tr + j) protocolo)"
  shows "\<exists>tr'. fazer_polling_status check protocolo max_tentativas intervalo tr
                 = (check (n_status_calls tr + k) protocolo, tr')
            \<and> n_status_calls tr' = n_status_calls tr + Suc k"
proof -
  have "k < nat max_tentativas" using assms(1) by simp
  moreover have "int 1 + int (nat max_tentativas) = max_tentativas + 1"
    using assms(1) by simp
  ultimately show ?thesis
    unfolding fazer_polling_status_def
    using polling_loop_terminal [of k "nat max_tentativas" 1 max_tentativas check tr protocolo]
      assms(2,3) by simp
qed

text \<open>
  The two scripted runs of the specification: statuses 2, 2, 2, 4 with a budget of 10
  give the success answer after 4 queries; statuses 2, 3 give the error answer after 2.
\<close>

theorem polling_stops_at_first_terminal_witness:
  "fst (fazer_polling_status (scripted [2, 2, 2, 4]) ''P'' 10 15 []) = Inr (status_reply 4 ''P'')
   \<and> n_status_calls (snd (fazer_polling_status (scripted [2, 2, 2, 4]) ''P'' 10 15 [])) = 4
   \<and> fst (fazer_polling_status (scripted [2, 3]) ''P'' 20 15 []) = Inr (status_reply 3 ''P'')
   \<and> n_status_calls (snd (fazer_polling_status (scripted [2, 3]) ''P'' 20 15 [])) = 2"
proof -
  have n0: "n_status_calls [] = 0" by (simp add: n_status_calls_def)
  have a1: "int 3 < 10" by simp
  have a2: "terminal (scripted [2, 2, 2, 4] (n_status_calls [] + 3) ''P'')"
    by (simp add: n0 scripted_def status_reply_def)
  have a3: "\<forall>j<3. \<not> terminal (scripted [2, 2, 2, 4] (n_status_calls [] + j) ''P'')"
    by (auto simp: n0 scripted_def status_reply_def less_Suc_eq numeral_3_eq_3)
  have b1: "int 1 < 20" by simp
  have b2: "terminal (scripted [2, 3] (n_status_calls [] + 1) ''P'')"
    by (simp add: n0 scripted_def status_reply_def)
  have b3: "\<forall>j<1. \<not> terminal (scripted [2, 3] (n_status_calls [] + j) ''P'')"
    by (simp add: n0 scripted_def status_reply_def)
  show ?thesis
    using polling_stops_at_first_terminal [where k = 3 and max_tentativas = 10
        and check = "scripted [2, 2, 2, 4]" and tr = "[]" and protocolo = "''P''"
        and intervalo = 15, OF a1 a2 a3]
      polling_stops_at_first_terminal [where k = 1 and max_tentativas = 20
        and check = "scripted [2, 3]" and tr = "[]" and protocolo = "''P''"
        and intervalo = 15, OF b1 b2 b3]
    by (auto simp: n0 scripted_def)
qed

text \<open>
  Claim C6. Suppose none of the \<open>max_tentativas\<close> answers of the budget is terminal. Then
  \<open>_fazer_polling_status\<close> raises after exactly \<open>max_tentativas\<close> status queries (none when
  the budget is not positive). If the last query was answered (with a non-terminal
  status), the error is the timeout; if the last query failed (it raised, or came back
  with \<open>sucesso = False\<close>), the error is the persistent-failure error, which is never
  equal to the timeout error.
\<close>

theorem polling_exhaustion:
  assumes "\<forall>j<nat max_tentativas. \<not> terminal (check (n_status_calls tr + j) protocolo)"
  shows "\<exists>err tr'.
           fazer_polling_status check protocolo max_tentativas intervalo tr = (Inl err, tr')
         \<and> n_status_calls tr' = n_status_calls tr + nat max_tentativas
         \<and> (max_tentativas \<le> 0
              \<or> answered (check (n_status_calls tr + nat max_tentativas - 1) protocolo)
            \<longrightarrow> err = timeout_error max_tentativas)
         \<and> (0 < max_tentativas
              \<and> \<not> answered (check (n_status_calls tr + nat max_tentativas - 1) protocolo)
            \<longrightarrow> (\<exists>e. err = persistent_error e) \<and> err \<noteq> timeout_error max_tentativas)"
proof (cases "max_tentativas \<le> 0")
  case True
  then have "nat max_tentativas = 0" by simp
  then show ?thesis using True by (simp add: fazer_polling_status_def)
next
  case False
  let ?last = "check (n_status_calls tr + nat max_tentativas - 1) protocolo"
  have inv: "int 1 + int (nat max_tentativas) = max_tentativas + 1" using False by simp
  have pos: "nat max_tentativas \<noteq> 0" using False by simp
  obtain tr' where run: "fazer_polling_status check protocolo max_tentativas intervalo tr
        = (Inl (exhausted_outcome max_tentativas ?last), tr')"
    and calls: "n_status_calls tr' = n_status_calls tr + nat max_tentativas"
    using polling_loop_exhausted [where t = 1 and left = "nat max_tentativas"
        and m = max_tentativas and check = check and tr = tr and p = protocolo
        and iv = intervalo] inv assms pos
    unfolding fazer_polling_status_def by auto
  have "answered ?last \<Longrightarrow> exhausted_outcome max_tentativas ?last = timeout_error max_tentativas"
    by (cases ?last) (simp_all add: exhausted_outcome_def)
  moreover have "\<not> answered ?last \<Longrightarrow> \<exists>e. exhausted_outcome max_tentativas ?last = persistent_error e"
    by (cases ?last) (auto simp: exhausted_outcome_def)
  ultimately show ?thesis
    using run calls False timeout_ne_persistent [of max_tentativas] by (metis (no_types, lifting))
qed

text \<open>
  A budget of 3 with status 2 on every query: timeout after 3 queries. A budget of 3 with
  every query failing: the persistent-failure error after 3 queries.
\<close>

theorem polling_exhaustion_witness:
  "fst (fazer_polling_status (scripted [2, 2, 2]) ''P'' 3 15 []) = Inl (timeout_error 3)
   \<and> n_status_calls (snd (fazer_polling_status (scripted [2, 2, 2]) ''P'' 3 15 [])) = 3
   \<and> fst (fazer_polling_status (scripted []) ''P'' 3 15 [])
       = Inl (persistent_error (query_failure (failed_reply ''script exhausted'')))
   \<and> n_status_calls (snd (fazer_polling_status (scripted []) ''P'' 3 15 [])) = 3
   \<and> persistent_error (query_failure (failed_reply ''script exhausted'')) \<noteq> timeout_error 3"
proof -
  have n0: "n_status_calls [] = 0" by (simp add: n_status_calls_def)
  have a: "\<forall>j<nat 3. \<not> terminal (scripted [2, 2, 2] (n_status_calls [] + j) ''P'')"
    by (auto simp: n0 scripted_def status_reply_def less_Suc_eq eval_nat_numeral)
  have b: "\<forall>j<nat 3. \<not> terminal (scripted [] (n_status_calls [] + j) ''P'')"
    by (simp add: scripted_def failed_reply_def)
  have la: "answered (scripted [2, 2, 2] (n_status_calls [] + nat 3 - 1) ''P'')"
    by (simp add: n0 scripted_def status_reply_def)
  have lb: "\<not> answered (scripted [] (n_status_calls [] + nat 3 - 1) ''P'')"
    by (simp add: scripted_def failed_reply_def)
  have run_b: "fst (fazer_polling_status (scripted []) ''P'' 3 15 [])
       = Inl (persistent_error (query_failure (failed_reply ''script exhausted'')))"
    by (simp add: fazer_polling_status_def scripted_def failed_reply_def n_status_calls_def
        eval_nat_numeral Let_def)
  show ?thesis
    using polling_exhaustion [where max_tentativas = 3 and check = "scripted [2, 2, 2]"
        and tr = "[]" and protocolo = "''P''" and intervalo = 15, OF a]
      polling_exhaustion [where max_tentativas = 3 and check = "scripted []"
        and tr = "[]" and protocolo = "''P''" and intervalo = 15, OF b] la lb run_b
    by (auto simp: n0)
qed

text \<open>
  The whole trace of a run that ends at the first terminal answer: every attempt before
  it is its query followed by a sleep of the interval, except the attempts whose query
  came back with \<open>sucesso = False\<close>, which are the query alone.
\<close>

lemma polling_loop_trace:
  assumes "k < left" and "int t + int left = m + 1"
    and "terminal (check (n_status_calls tr + k) p)"
    and "\<forall>j<k. \<not> terminal (check (n_status_calls tr + j) p)"
  shows "snd (polling_loop check p m iv left t tr)
     = tr @ concat (map (attempt_events check p iv) [n_status_calls tr..<n_status_calls tr + k])
          @ [CheckLoteStatus p]"
  using assms
proof (induction k arbitrary: left t tr)
  case 0
  then obtain l where l: "left = Suc l" by (cases left) auto
  from 0 obtain r where r: "check (n_status_calls tr) p = Inr r" "st_sucesso r"
      "st_status r = Some 3 \<or> st_status r = Some 4"
    by (cases "check (n_status_calls tr) p") auto
  then show ?case unfolding l by (auto simp: Let_def)
next
  case (Suc k)
  then obtain l where l: "left = Suc l" by (cases left) auto
  let ?c = "n_status_calls tr"
  have lt: "int t < m" "int t \<noteq> m" using Suc.prems(1,2) l by auto
  have k: "k < l" using Suc.prems(1) l by simp
  have inv: "int (Suc t) + int l = m + 1" using Suc.prems(2) l by simp
  have nt: "\<not> terminal (check ?c p)" using Suc.prems(4) by force
  note c1 = n_status_calls_check [of tr p]
  note c2 = n_status_calls_check_sleep [of tr p iv]
  have upt: "[?c..<?c + Suc k] = ?c # [Suc ?c..<Suc ?c + k]" by (simp add: upt_rec)
  have ih: "snd (polling_loop check p m iv l (Suc t) tr0)
       = tr0 @ concat (map (attempt_events check p iv) [Suc ?c..<Suc ?c + k]) @ [CheckLoteStatus p]"
    if eq: "n_status_calls tr0 = Suc ?c" for tr0
  proof -
    have a: "terminal (check (n_status_calls tr0 + k) p)"
      using Suc.prems(3) eq by simp
    have b: "\<forall>j<k. \<not> terminal (check (n_status_calls tr0 + j) p)"
      using shift_not_terminal [where check = check and c = ?c and p = p
          and k = k and ?c0.0 = "n_status_calls tr0"] Suc.prems(4) eq by blast
    show ?thesis using Suc.IH [OF k inv a b] eq by simp
  qed
  have step: "snd (polling_loop check p m iv left t tr)
       = (tr @ attempt_events check p iv ?c)
           @ concat (map (attempt_events check p iv) [Suc ?c..<Suc ?c + k]) @ [CheckLoteStatus p]"
  proof (cases "check ?c p")
    case (Inl e)
    have "polling_loop check p m iv left t tr
        = polling_loop check p m iv l (Suc t) ((tr @ [CheckLoteStatus p]) @ [Sleep iv])"
      unfolding l using Inl lt by (simp add: Let_def)
    moreover have "attempt_events check p iv ?c = [CheckLoteStatus p, Sleep iv]"
      using Inl by (simp add: attempt_events_def)
    ultimately show ?thesis using ih [OF c2] by simp
  next
    case (Inr r)
    show ?thesis
    proof (cases "st_sucesso r")
      case True
      have "polling_loop check p m iv left t tr
          = polling_loop check p m iv l (Suc t) ((tr @ [CheckLoteStatus p]) @ [Sleep iv])"
        unfolding l using Inr True lt nt by (simp add: Let_def)
      moreover have "attempt_events check p iv ?c = [CheckLoteStatus p, Sleep iv]"
        using Inr True by (simp add: attempt_events_def)
      ultimately show ?thesis using ih [OF c2] by simp
    next
      case False
      have "polling_loop check p m iv left t tr
          = polling_loop check p m iv l (Suc t) (tr @ [CheckLoteStatus p])"
        unfolding l using Inr False lt by (simp add: Let_def)
      moreover have "attempt_events check p iv ?c = [CheckLoteStatus p]"
        using Inr False by (simp add: attempt_events_def)
      ultimately show ?thesis using ih [OF c1] by simp
    qed
  qed
  show ?case unfolding step upt by simp
qed

text \<open>
  Claim C7, at the input where the code departs from it. The first status query comes
  back with \<open>sucesso = False\<close> (what \<open>check_lote_status\<close> returns on any transport or
  parse failure) and the second is answered with status 4. The poller makes the second
  query straight after the first: the \<open>continue\<close> of the failed-query branch jumps over
  the \<open>time.sleep\<close> at the end of the loop body, so the trace has no \<open>Sleep\<close> event
  between the two queries.
\<close>

theorem polling_failed_query_skips_sleep:
  "fazer_polling_status
     (\<lambda>k p. if k = 0 then Inr (failed_reply ''timed out'') else Inr (status_reply 4 p))
     ''P'' 20 15 []
   = (Inr (status_reply 4 ''P''), [CheckLoteStatus ''P'', CheckLoteStatus ''P''])"
  by (simp add: fazer_polling_status_def failed_reply_def status_reply_def n_status_calls_def
      eval_nat_numeral Let_def)

section \<open>Properties of the workflow\<close>

lemmas etapas_defs = etapa1_obter_faturas_def etapa2_construir_xml_def etapa3_assinar_xml_def
  etapa4_enviar_lote_def etapa5_polling_status_def etapa6_obter_resultados_def
  sucesso_completo_def resultado_inicial_def add_erro_def add_etapa_def did_def

text \<open>Each step either carries the run on with one more completed step, or fails it.\<close>

lemma etapa1_outcome:
  "pending k s \<Longrightarrow>
   (case etapa1_obter_faturas c s of Inl r \<Rightarrow> failed_after k r | Inr (s', x) \<Rightarrow> pending (Suc k) s')"
  by (simp add: etapa1_obter_faturas_def add_erro_def add_etapa_def did_def pending_def
      failed_after_def Let_def split: sum.split option.split)

lemma etapa2_outcome:
  "pending k s \<Longrightarrow>
   (case etapa2_construir_xml c s i of Inl r \<Rightarrow> failed_after k r | Inr (s', x) \<Rightarrow> pending (Suc k) s')"
  by (simp add: etapa2_construir_xml_def add_erro_def add_etapa_def did_def pending_def
      failed_after_def Let_def split: sum.split option.split)

lemma etapa3_outcome:
  "pending k s \<Longrightarrow>
   (case etapa3_assinar_xml c s d of Inl r \<Rightarrow> failed_after k r | Inr (s', x) \<Rightarrow> pending (Suc k) s')"
  by (simp add: etapa3_assinar_xml_def add_erro_def add_etapa_def did_def pending_def
      failed_after_def Let_def split: sum.split option.split)

lemma etapa4_outcome:
  "pending k s \<Longrightarrow>
   (case etapa4_enviar_lote c s d of Inl r \<Rightarrow> failed_after k r | Inr (s', x) \<Rightarrow> pending (Suc k) s')"
  by (simp add: etapa4_enviar_lote_def add_erro_def add_etapa_def did_def pending_def
      failed_after_def Let_def split: sum.split option.split)

lemma etapa5_outcome:
  "pending k s \<Longrightarrow>
   (case etapa5_polling_status c s p of Inl r \<Rightarrow> failed_after k r | Inr s' \<Rightarrow> pending (Suc k) s')"
  by (simp add: etapa5_polling_status_def add_erro_def add_etapa_def did_def pending_def
      failed_after_def Let_def split: sum.split option.split prod.split)

lemma etapa6_outcome:
  "pending k s \<Longrightarrow>
   (case etapa6_obter_resultados c s p of Inl r \<Rightarrow> failed_after k r | Inr s' \<Rightarrow> pending (Suc k) s')"
  by (simp add: etapa6_obter_resultados_def add_erro_def add_etapa_def did_def pending_def
      failed_after_def Let_def split: sum.split option.split prod.split)

text \<open>
  Every run either completes its six steps, and is then stamped with the end time, or is
  returned by a failed step with one error message, fewer than six completed steps, no
  end time and a duration of 0.
\<close>

lemma run_outcome:
  "(wr_sucesso (fst (process_pending_invoices c))
      \<and> wr_fim (fst (process_pending_invoices c)) = Some (c_now_end c)
      \<and> wr_erros (fst (process_pending_invoices c)) = []
      \<and> length (wr_etapas_concluidas (fst (process_pending_invoices c))) = 6)
   \<or> (\<exists>k<6. failed_after k (process_pending_invoices c))"
proof -
  have p0: "pending 0 (resultado_inicial (c_now_start c), [])"
    by (simp add: pending_def resultado_inicial_def)
  show ?thesis
  proof (cases "etapa1_obter_faturas c (resultado_inicial (c_now_start c), [])")
    case (Inl r)
    then show ?thesis using etapa1_outcome [OF p0, of c]
      by (auto simp: process_pending_invoices_def)
  next
    case (Inr a)
    obtain s1 i where a: "a = (s1, i)" by (cases a)
    have p1: "pending 1 s1" using etapa1_outcome [OF p0, of c] Inr a by simp
    show ?thesis
    proof (cases "etapa2_construir_xml c s1 i")
      case (Inl r)
      then show ?thesis using etapa2_outcome [OF p1, of c i] Inr a
        by (auto simp: process_pending_invoices_def)
    next
      case e2: (Inr b)
      obtain s2 d where b: "b = (s2, d)" by (cases b)
      have p2: "pending 2 s2" using etapa2_outcome [OF p1, of c i] e2 b by (simp add: eval_nat_numeral)
      show ?thesis
      proof (cases "etapa3_assinar_xml c s2 d")
        case (Inl r)
        then show ?thesis using etapa3_outcome [OF p2, of c d] Inr a e2 b
          by (auto simp: process_pending_invoices_def)
      next
        case e3: (Inr b3)
        obtain s3 x where b3: "b3 = (s3, x)" by (cases b3)
        have p3: "pending 3 s3" using etapa3_outcome [OF p2, of c d] e3 b3 by (simp add: eval_nat_numeral)
        show ?thesis
        proof (cases "etapa4_enviar_lote c s3 x")
          case (Inl r)
          then show ?thesis using etapa4_outcome [OF p3, of c x] Inr a e2 b e3 b3
            by (auto simp: process_pending_invoices_def)
        next
          case e4: (Inr b4)
          obtain s4 p where b4: "b4 = (s4, p)" by (cases b4)
          have p4: "pending 4 s4" using etapa4_outcome [OF p3, of c x] e4 b4 by (simp add: eval_nat_numeral)
          show ?thesis
          proof (cases "etapa5_polling_status c s4 p")
            case (Inl r)
            then show ?thesis using etapa5_outcome [OF p4, of c p] Inr a e2 b e3 b3 e4 b4
              by (auto simp: process_pending_invoices_def)
          next
            case e5: (Inr s5)
            have p5: "pending 5 s5" using etapa5_outcome [OF p4, of c p] e5 by (simp add: eval_nat_numeral)
            show ?thesis
            proof (cases "etapa6_obter_resultados c s5 p")
              case (Inl r)
              then show ?thesis using etapa6_outcome [OF p5, of c p] Inr a e2 b e3 b3 e4 b4 e5
                by (auto simp: process_pending_invoices_def)
            next
              case e6: (Inr s6)
              have p6: "pending 6 s6" using etapa6_outcome [OF p5, of c p] e6 by (simp add: eval_nat_numeral)
              then show ?thesis using Inr a e2 b e3 b3 e4 b4 e5 e6
                by (simp add: process_pending_invoices_def sucesso_completo_def pending_def)
            qed
          qed
        qed
      qed
    qed
  qed
qed

text \<open>
  Claim C1, at an input where the code departs from it. Signing is switched on
  (\<open>SKIP_SIGNATURE = False\<close>, \<open>TEST_MODE = False\<close>) and the certificate file does not
  exist, so step 3 raises. The run is returned with \<open>sucesso = False\<close>, the error of the
  step appended, and no later step executed; but the end time is still \<open>None\<close> and the
  duration still 0: the handler of the step returns without stamping them.
\<close>

theorem signing_failure_is_not_stamped:
  "process_pending_invoices
     (repo_collaborators ((config_py None)\<lparr>cfg_SKIP_SIGNATURE := False\<rparr>)
        no_xmlsec no_webservice fmt simulated_clock)
   = (\<lparr>wr_sucesso = False, wr_inicio = 0, wr_fim = None, wr_duracao_segundos = 0,
       wr_etapas_concluidas = [''obter_faturas'', ''construir_xml''],
       wr_protocolo = None, wr_nfse_geradas = [],
       wr_erros = [''Erro ao assinar XML: Certificado n'' @ a_til
                    @ ''o encontrado: certs/seu_certificado.pfx'']\<rparr>,
      [GetInvoices, GerarNumeroLote, CreateLoteXml, SignLoteRps])"
  by (simp add: process_pending_invoices_def etapas_defs
      repo_collaborators_def config_py_def simulated_clock_def get_invoices_to_process_def
      sign_lote_rps_xml_def load_private_key_from_pfx_def no_xmlsec_def Let_def)

text \<open>
  Claim C2, at the simulated end-to-end run. The run succeeds with its six steps in
  order and the protocol \<open>TESTE_20250930112656\<close>, and the result retrieval does return
  one generated invoice, number \<open>000000001\<close>, under the key \<open>nfse_geradas\<close>. The
  orchestrator reads the key \<open>nfse_list\<close>, which that dictionary does not have, so the
  workflow result lists no generated invoice.
\<close>

theorem simulated_run_lists_no_invoice:
  "wr_sucesso (fst (simulated_run fmt))
   \<and> wr_etapas_concluidas (fst (simulated_run fmt))
       = [''obter_faturas'', ''construir_xml'', ''assinar_xml'', ''enviar_lote'',
          ''polling_status'', ''obter_resultados'']
   \<and> wr_protocolo (fst (simulated_run fmt)) = Some ''TESTE_20250930112656''
   \<and> snd (simulated_run fmt)
       = [GetInvoices, GerarNumeroLote, CreateLoteXml, SignLoteRps, SendLoteRps,
          CheckLoteStatus ''TESTE_20250930112656'', GetLoteResults ''TESTE_20250930112656'']
   \<and> map nf_numero
         (get_or (rd_nfse_geradas
            (get_lote_results (config_py None) no_webservice 1 ''TESTE_20250930112656'')) [])
       = [Some ''000000001'']
   \<and> rd_nfse_list (get_lote_results (config_py None) no_webservice 1 ''TESTE_20250930112656'')
       = None
   \<and> wr_nfse_geradas (fst (simulated_run fmt)) = []"
  by (simp add: simulated_run_def process_pending_invoices_def etapas_defs
      repo_collaborators_def config_py_def simulated_clock_def get_invoices_to_process_def
      sign_lote_rps_xml_def send_lote_rps_def check_lote_status_def get_lote_results_def
      fazer_polling_status_def n_status_calls_def get_or_def eval_nat_numeral Let_def)

text \<open>
  Claim C9. If the data source returns an empty list of invoices, or \<open>None\<close>, the
  workflow result has \<open>sucesso = False\<close>, no completed step and exactly one error
  message, and the only thing the run did was to ask for the invoices: no call of the
  remote service was attempted.
\<close>

theorem empty_invoice_collection:
  assumes "c_get_invoices_to_process c = Inr None
           \<or> c_get_invoices_to_process c = Inr (Some [])"
  shows "\<not> wr_sucesso (fst (process_pending_invoices c))
       \<and> wr_etapas_concluidas (fst (process_pending_invoices c)) = []
       \<and> wr_erros (fst (process_pending_invoices c))
           = [''Nenhuma fatura pendente para processar'']
       \<and> snd (process_pending_invoices c) = [GetInvoices]
       \<and> filter is_network (snd (process_pending_invoices c)) = []"
  using assms by (auto simp: process_pending_invoices_def etapas_defs Let_def)

theorem empty_invoice_collection_witness:
  "c_get_invoices_to_process
     ((repo_collaborators (config_py None) no_xmlsec no_webservice (\<lambda>n x. ''0'')
         simulated_clock)\<lparr>c_get_invoices_to_process := Inr (Some [])\<rparr>) = Inr (Some [])
   \<and> \<not> wr_sucesso (fst (process_pending_invoices
        ((repo_collaborators (config_py None) no_xmlsec no_webservice (\<lambda>n x. ''0'')
            simulated_clock)\<lparr>c_get_invoices_to_process := Inr (Some [])\<rparr>)))
   \<and> wr_etapas_concluidas (fst (process_pending_invoices
        ((repo_collaborators (config_py None) no_xmlsec no_webservice (\<lambda>n x. ''0'')
            simulated_clock)\<lparr>c_get_invoices_to_process := Inr (Some [])\<rparr>))) = []
   \<and> length (wr_erros (fst (process_pending_invoices
        ((repo_collaborators (config_py None) no_xmlsec no_webservice (\<lambda>n x. ''0'')
            simulated_clock)\<lparr>c_get_invoices_to_process := Inr (Some [])\<rparr>)))) = 1
   \<and> filter is_network (snd (process_pending_invoices
        ((repo_collaborators (config_py None) no_xmlsec no_webservice (\<lambda>n x. ''0'')
            simulated_clock)\<lparr>c_get_invoices_to_process := Inr (Some [])\<rparr>))) = []"
proof -
  let ?c = "(repo_collaborators (config_py None) no_xmlsec no_webservice (\<lambda>n x. ''0'')
               simulated_clock)\<lparr>c_get_invoices_to_process := Inr (Some [])\<rparr>"
  have h: "c_get_invoices_to_process ?c = Inr None
           \<or> c_get_invoices_to_process ?c = Inr (Some [])"
    by simp
  show ?thesis using empty_invoice_collection [OF h] by simp
qed

text \<open>
  The workflow is step 1 followed by steps 2 to 6 on the list that step 1 obtained; and
  of all the collaborators only step 2 consults the builder, on that list and the batch
  number.
\<close>

lemma process_pending_invoices_steps:
  "process_pending_invoices c =
     (case etapa1_obter_faturas c (resultado_inicial (c_now_start c), []) of
        Inl r \<Rightarrow> r
      | Inr (s1, invoices_data) \<Rightarrow> etapas_2_a_6 c s1 invoices_data)"
  by (simp add: process_pending_invoices_def etapas_2_a_6_def split: sum.split prod.split)

lemma later_steps_ignore_builder:
  "etapa3_assinar_xml (c\<lparr>c_create_lote_xml := g\<rparr>) = etapa3_assinar_xml c"
  "etapa4_enviar_lote (c\<lparr>c_create_lote_xml := g\<rparr>) = etapa4_enviar_lote c"
  "etapa5_polling_status (c\<lparr>c_create_lote_xml := g\<rparr>) = etapa5_polling_status c"
  "etapa6_obter_resultados (c\<lparr>c_create_lote_xml := g\<rparr>) = etapa6_obter_resultados c"
  "sucesso_completo (c\<lparr>c_create_lote_xml := g\<rparr>) = sucesso_completo c"
  by (intro ext, simp add: etapa3_assinar_xml_def etapa4_enviar_lote_def
      etapa5_polling_status_def etapa6_obter_resultados_def sucesso_completo_def)+

lemma etapa2_builder:
  assumes "c_gerar_numero_lote c = Inr numero_lote"
    and "g invoices numero_lote = c_create_lote_xml c invoices numero_lote"
  shows "etapa2_construir_xml (c\<lparr>c_create_lote_xml := g\<rparr>) s1 invoices
       = etapa2_construir_xml c s1 invoices"
  using assms by (simp add: etapa2_construir_xml_def)

lemma etapas_2_a_6_builder:
  assumes "c_gerar_numero_lote c = Inr numero_lote"
    and "g invoices numero_lote = c_create_lote_xml c invoices numero_lote"
  shows "etapas_2_a_6 (c\<lparr>c_create_lote_xml := g\<rparr>) s1 invoices = etapas_2_a_6 c s1 invoices"
  using assms etapa2_builder [of c numero_lote g invoices s1]
  by (simp add: etapas_2_a_6_def later_steps_ignore_builder split: sum.split prod.split)

lemma probe_run:
  "etapas_2_a_6 probing_collaborators
     ((resultado_inicial (c_now_start probing_collaborators))
        \<lparr>wr_etapas_concluidas := [''obter_faturas'']\<rparr>, [GetInvoices])
     (get_invoices_to_process ''2025-09-30T11:26:56'')
   = (\<lparr>wr_sucesso = False, wr_inicio = 0, wr_fim = None, wr_duracao_segundos = 0,
       wr_etapas_concluidas = [''obter_faturas''], wr_protocolo = None, wr_nfse_geradas = [],
       wr_erros = [''Erro ao construir XML do lote: asked to build rps_1'']\<rparr>,
      [GetInvoices, GerarNumeroLote, CreateLoteXml])"
  by (simp add: etapas_2_a_6_def etapas_defs probing_collaborators_def repo_collaborators_def
      simulated_clock_def get_invoices_to_process_def str_int_def str_nat.simps digit_char_def
      Let_def)

text \<open>
  Claim C10. \<open>process_single_invoice(invoice_data)\<close> returns exactly what
  \<open>process_pending_invoices()\<close> returns, whatever the invoice it is given, and what it
  processes is the data source's list: when the data source returns a non-empty list
  \<open>invoices\<close>, the result is that of steps 2 to 6 run on \<open>invoices\<close>, and it stays the
  same under any change of the builder that keeps what the builder does on \<open>invoices\<close>,
  so what the builder would do with the invoice passed in plays no part.
\<close>

theorem single_invoice_runs_on_data_source:
  assumes "c_get_invoices_to_process c = Inr (Some invoices)" and "invoices \<noteq> []"
    and "c_gerar_numero_lote c = Inr numero_lote"
  shows "process_single_invoice c invoice_data = process_pending_invoices c
       \<and> process_single_invoice c invoice_data
           = etapas_2_a_6 c
               ((resultado_inicial (c_now_start c))\<lparr>wr_etapas_concluidas := [''obter_faturas'']\<rparr>,
                [GetInvoices])
               invoices
       \<and> (g invoices numero_lote = c_create_lote_xml c invoices numero_lote
          \<longrightarrow> process_single_invoice (c\<lparr>c_create_lote_xml := g\<rparr>) invoice_data
              = process_single_invoice c invoice_data)"
proof -
  have step1: "etapa1_obter_faturas c' (resultado_inicial (c_now_start c'), [])
       = Inr (((resultado_inicial (c_now_start c'))\<lparr>wr_etapas_concluidas := [''obter_faturas'']\<rparr>,
               [GetInvoices]), invoices)"
    if "c_get_invoices_to_process c' = Inr (Some invoices)" for c' :: "('a, 'b, 'c) collaborators"
    using that assms(2)
    by (simp add: etapa1_obter_faturas_def add_etapa_def did_def resultado_inicial_def)
  have run: "process_single_invoice c' invoice_data
       = etapas_2_a_6 c'
           ((resultado_inicial (c_now_start c'))\<lparr>wr_etapas_concluidas := [''obter_faturas'']\<rparr>,
            [GetInvoices]) invoices"
    if "c_get_invoices_to_process c' = Inr (Some invoices)" for c' :: "('a, 'b, 'c) collaborators"
    using step1 [OF that]
    by (simp add: process_single_invoice_def process_pending_invoices_steps)
  have a: "process_single_invoice c invoice_data = process_pending_invoices c"
    by (simp add: process_single_invoice_def)
  have b: "process_single_invoice (c\<lparr>c_create_lote_xml := g\<rparr>) invoice_data
        = process_single_invoice c invoice_data"
    if "g invoices numero_lote = c_create_lote_xml c invoices numero_lote"
    using run [of "c\<lparr>c_create_lote_xml := g\<rparr>"] run [of c] assms(1,3) that
      etapas_2_a_6_builder [of c numero_lote g invoices]
    by simp
  show ?thesis using a run [OF assms(1)] b by blast
qed

text \<open>
  The invoice passed in has \<open>id_rps\<close> \<open>rps_777\<close>, the data source's has \<open>rps_1\<close>; the
  builder is asked to build \<open>rps_1\<close>.
\<close>

theorem single_invoice_runs_on_data_source_witness:
  "inv_id_rps other_invoice = ''rps_777''
   \<and> map inv_id_rps (get_invoices_to_process ''2025-09-30T11:26:56'') = [''rps_1'']
   \<and> c_get_invoices_to_process probing_collaborators
       = Inr (Some (get_invoices_to_process ''2025-09-30T11:26:56''))
   \<and> process_single_invoice probing_collaborators other_invoice
     = (\<lparr>wr_sucesso = False, wr_inicio = 0, wr_fim = None, wr_duracao_segundos = 0,
         wr_etapas_concluidas = [''obter_faturas''], wr_protocolo = None, wr_nfse_geradas = [],
         wr_erros = [''Erro ao construir XML do lote: asked to build rps_1'']\<rparr>,
        [GetInvoices, GerarNumeroLote, CreateLoteXml])"
proof -
  have h1: "c_get_invoices_to_process probing_collaborators
      = Inr (Some (get_invoices_to_process ''2025-09-30T11:26:56''))"
    by (simp add: probing_collaborators_def repo_collaborators_def simulated_clock_def)
  have h2: "get_invoices_to_process ''2025-09-30T11:26:56'' \<noteq> []"
    by (simp add: get_invoices_to_process_def)
  have h3: "c_gerar_numero_lote probing_collaborators = Inr 20250930112656"
    by (simp add: probing_collaborators_def repo_collaborators_def simulated_clock_def)
  have ids: "inv_id_rps other_invoice = ''rps_777''
      \<and> map inv_id_rps (get_invoices_to_process ''2025-09-30T11:26:56'') = [''rps_1'']"
    by (simp add: other_invoice_def get_invoices_to_process_def str_int_def str_nat.simps
        digit_char_def)
  have "process_single_invoice probing_collaborators other_invoice
      = etapas_2_a_6 probing_collaborators
          ((resultado_inicial (c_now_start probing_collaborators))
             \<lparr>wr_etapas_concluidas := [''obter_faturas'']\<rparr>, [GetInvoices])
          (get_invoices_to_process ''2025-09-30T11:26:56'')"
    using single_invoice_runs_on_data_source
      [where c = probing_collaborators and invoice_data = other_invoice
         and g = "c_create_lote_xml probing_collaborators", OF h1 h2 h3]
    by blast
  then have "process_single_invoice probing_collaborators other_invoice
     = (\<lparr>wr_sucesso = False, wr_inicio = 0, wr_fim = None, wr_duracao_segundos = 0,
         wr_etapas_concluidas = [''obter_faturas''], wr_protocolo = None, wr_nfse_geradas = [],
         wr_erros = [''Erro ao construir XML do lote: asked to build rps_1'']\<rparr>,
        [GetInvoices, GerarNumeroLote, CreateLoteXml])"
    by (simp only: probe_run)
  then show ?thesis using h1 ids by blast
qed

section \<open>Properties of the batch document\<close>

lemma foldl_build_rps:
  "foldl (build_rps fmt) (Element tg ats tx cs) invoices
     = Element tg ats tx (cs @ map (unsigned_rps fmt) invoices)"
  by (induction invoices arbitrary: cs) (simp_all add: build_rps_def unsigned_rps_def)

lemma create_lote_xml_shape:
  "create_lote_xml fmt invoices numero_lote
     = envio_with [lote_with numero_lote (length invoices) (map (unsigned_rps fmt) invoices)]"
  by (simp add: create_lote_xml_def build_lote_rps_def foldl_build_rps lote_with_def envio_with_def)

lemmas build_inf_rps_defs = build_inf_rps_def build_identificacao_rps_def build_servico_def
  build_prestador_def build_tomador_def build_endereco_tomador_def leaf_def

lemma xpath_inf_rps_Rps: "xpath_all ''Rps'' (build_inf_rps fmt invoice) = []"
  by (simp add: build_inf_rps_defs)

lemma xpath_inf_rps_Quantidade: "xpath_all ''QuantidadeRps'' (build_inf_rps fmt invoice) = []"
  by (simp add: build_inf_rps_defs)

lemma xpath_rps_list:
  "xpath_all_list ''Rps'' i (map (unsigned_rps fmt) invoices)
     = map (\<lambda>j. [j]) [i..<i + length invoices]"
proof (induction invoices arbitrary: i)
  case Nil
  then show ?case by simp
next
  case (Cons a invoices)
  have "[i..<i + length (a # invoices)] = i # [Suc i..<Suc i + length invoices]"
    by (simp add: upt_rec)
  then show ?case using Cons.IH [of "Suc i"]
    by (simp add: unsigned_rps_def xpath_inf_rps_Rps)
qed

lemma xpath_quantidade_list:
  "xpath_all_list ''QuantidadeRps'' i (map (unsigned_rps fmt) invoices) = []"
  by (induction invoices arbitrary: i) (simp_all add: unsigned_rps_def xpath_inf_rps_Quantidade)

text \<open>
  \<open>str\<close> is one-to-one on the natural numbers, so the text of \<open>QuantidadeRps\<close>
  determines the count it stands for.
\<close>

lemma digit_char_inj: "a < 10 \<Longrightarrow> b < 10 \<Longrightarrow> digit_char a = digit_char b \<Longrightarrow> a = b"
  unfolding digit_char_def by (auto split: if_splits) arith

lemma str_nat_not_empty: "str_nat n \<noteq> []"
  by (subst str_nat.simps) simp

lemma str_nat_single: "length (str_nat n) = 1 \<longleftrightarrow> n < 10"
proof
  assume "length (str_nat n) = 1"
  then show "n < 10"
    using str_nat_not_empty [of "n div 10"]
    by (subst (asm) str_nat.simps) (auto split: if_splits)
next
  assume "n < 10"
  then show "length (str_nat n) = 1" by (subst str_nat.simps) simp
qed

lemma str_nat_inj: "str_nat m = str_nat n \<Longrightarrow> m = n"
proof (induction m arbitrary: n rule: str_nat.induct)
  case (1 m)
  show ?case
  proof (cases "m < 10")
    case True
    then have "length (str_nat n) = 1" using "1.prems" str_nat_single [of m] by simp
    then have n: "n < 10" using str_nat_single by simp
    from "1.prems" True n have "digit_char m = digit_char n"
      by (simp add: str_nat.simps [of m] str_nat.simps [of n])
    then show ?thesis using digit_char_inj True n by blast
  next
    case False
    then have "length (str_nat n) \<noteq> 1" using "1.prems" str_nat_single [of m] by simp
    then have n: "\<not> n < 10" using str_nat_single by simp
    from "1.prems" False n
    have "str_nat (m div 10) @ [digit_char (m mod 10)] = str_nat (n div 10) @ [digit_char (n mod 10)]"
      by (simp add: str_nat.simps [of m] str_nat.simps [of n])
    then have a: "str_nat (m div 10) = str_nat (n div 10)"
      and b: "digit_char (m mod 10) = digit_char (n mod 10)" by simp_all
    have "m div 10 = n div 10" using "1.IH" [OF False a] .
    moreover have "m mod 10 = n mod 10" using digit_char_inj [OF _ _ b] by simp
    ultimately show ?thesis by (metis div_mult_mod_eq)
  qed
qed

lemma str_int_of_nat_inj: "str_int (int m) = str_int (int n) \<Longrightarrow> m = n"
  using str_nat_inj by (simp add: str_int_def)

text \<open>
  Claim C8. For every list of invoices, whatever its length \<open>N\<close> (so also for
  \<open>N \<ge> 1\<close>), the document built by \<open>create_lote_xml\<close> has exactly one \<open>QuantidadeRps\<close>
  element, its text is \<open>str(N)\<close>, and the document has exactly \<open>N\<close> elements named
  \<open>Rps\<close>.
\<close>

theorem create_lote_xml_counts:
  "xpath_all ''QuantidadeRps'' (create_lote_xml fmt invoices numero_lote) = [[0, 3]]
   \<and> map_option text_of (subtree (create_lote_xml fmt invoices numero_lote) [0, 3])
       = Some (Some (str_int (int (length invoices))))
   \<and> length (xpath_all ''Rps'' (create_lote_xml fmt invoices numero_lote)) = length invoices"
  by (simp add: create_lote_xml_shape envio_with_def lote_with_def leaf_def
      xpath_rps_list xpath_quantidade_list)

text \<open>Two invoices: the text is \<open>2\<close> and there are two \<open>Rps\<close> elements.\<close>

theorem create_lote_xml_counts_witness:
  "map_option text_of
     (subtree (create_lote_xml (\<lambda>n x. ''0.00'')
                 (get_invoices_to_process ''2025-09-30T10:00:00''
                    @ get_invoices_to_process ''2025-09-30T11:00:00'') 12345) [0, 3])
     = Some (Some ''2'')
   \<and> length (xpath_all ''Rps''
        (create_lote_xml (\<lambda>n x. ''0.00'')
           (get_invoices_to_process ''2025-09-30T10:00:00''
              @ get_invoices_to_process ''2025-09-30T11:00:00'') 12345)) = 2"
proof -
  have "str_int (int (length (get_invoices_to_process ''2025-09-30T10:00:00''
                    @ get_invoices_to_process ''2025-09-30T11:00:00''))) = ''2''"
    by (simp add: get_invoices_to_process_def str_int_def str_nat.simps digit_char_def)
  then show ?thesis
    using create_lote_xml_counts [of "\<lambda>n x. ''0.00''"
        "get_invoices_to_process ''2025-09-30T10:00:00''
           @ get_invoices_to_process ''2025-09-30T11:00:00''" 12345]
    by (simp add: get_invoices_to_process_def)
qed

section \<open>Properties of the signer\<close>

subsection \<open>What signing leaves alone, on any document\<close>











subsection \<open>The two phases on a document of the builder\<close>











subsection \<open>Running the signer\<close>

lemmas signer_defs = sign_lote_rps_xml_def signing_config_def config_py_def
  load_private_key_from_pfx_def stub_xmlsec_def sign_internal_rps_elements_def
  sign_external_lote_element_def apply_signature_def xpath_children_def
  fill_signature_def create_signature_template_def ds_def stub_values_def
  str_int_def str_nat.simps digit_char_def Let_def



lemma run_lote_without_id:
  "sign_lote_rps_xml signing_config stub_xmlsec lote_without_id_document
   = Inl (ValueError (''Atributo id n'' @ a_til @ ''o encontrado no elemento LoteRps''))"
  by (simp add: lote_without_id_document_def signer_defs)




subsection \<open>Claim C3\<close>




subsection \<open>Claim C4\<close>




end
